theory Spec2Isabelle
  imports Main "HOL-Library.Sublist"
begin

section \<open>Strings\<close>

text \<open>
  A Python \<^verbatim>\<open>str\<close> is modelled by its UTF-8 encoding, a list of bytes: \<^typ>\<open>string\<close>.
  Concatenation and interpolation commute with the encoding, and UTF-8 is
  self-synchronising, so one well-formed text occurs inside another as a run of code
  points exactly where its encoding occurs as a run of bytes. The characters of the
  source outside ASCII are named here by their encodings.
\<close>

text \<open>U+00B1 PLUS-MINUS SIGN.\<close>

definition plus_minus_sign :: string where
  "plus_minus_sign = [CHR 0xC2, CHR 0xB1]"

text \<open>U+03A3 GREEK CAPITAL LETTER SIGMA.\<close>

definition greek_capital_sigma :: string where
  "greek_capital_sigma = [CHR 0xCE, CHR 0xA3]"

text \<open>U+2014 EM DASH.\<close>

definition em_dash :: string where
  "em_dash = [CHR 0xE2, CHR 0x80, CHR 0x94]"

text \<open>U+2192 RIGHTWARDS ARROW.\<close>

definition rightwards_arrow :: string where
  "rightwards_arrow = [CHR 0xE2, CHR 0x86, CHR 0x92]"

text \<open>U+2264 LESS-THAN OR EQUAL TO.\<close>

definition less_than_or_equal_to :: string where
  "less_than_or_equal_to = [CHR 0xE2, CHR 0x89, CHR 0xA4]"

text \<open>U+2265 GREATER-THAN OR EQUAL TO.\<close>

definition greater_than_or_equal_to :: string where
  "greater_than_or_equal_to = [CHR 0xE2, CHR 0x89, CHR 0xA5]"

text \<open>U+26A0 WARNING SIGN.\<close>

definition warning_sign :: string where
  "warning_sign = [CHR 0xE2, CHR 0x9A, CHR 0xA0]"

text \<open>U+2705 WHITE HEAVY CHECK MARK.\<close>

definition white_heavy_check_mark :: string where
  "white_heavy_check_mark = [CHR 0xE2, CHR 0x9C, CHR 0x85]"

text \<open>U+274C CROSS MARK.\<close>

definition cross_mark :: string where
  "cross_mark = [CHR 0xE2, CHR 0x9D, CHR 0x8C]"

text \<open>U+FE0F VARIATION SELECTOR-16.\<close>

definition variation_selector_16 :: string where
  "variation_selector_16 = [CHR 0xEF, CHR 0xB8, CHR 0x8F]"

text \<open>U+1F6A9 TRIANGULAR FLAG ON POST.\<close>

definition triangular_flag_on_post :: string where
  "triangular_flag_on_post = [CHR 0xF0, CHR 0x9F, CHR 0x9A, CHR 0xA9]"

text \<open>
  A triple-quoted literal is given by its rows, the text between two line breaks of the
  source; every row is followed by a line feed. The row of the opening quotes is empty,
  so the text starts with a line feed, and the closing quotes stand on a line of their
  own, so it ends with one.
\<close>

primrec text_of_rows :: "string list \<Rightarrow> string" where
  "text_of_rows [] = []"
| "text_of_rows (row # rows) = row @ CHR 0x0A # text_of_rows rows"

section \<open>The question store loader\<close>

text \<open>Line 3 of \<^verbatim>\<open>src/questions.py\<close>.\<close>

definition BASE_URL :: string where
  "BASE_URL = ''https://deepwiki.com/byteball/ocore''"

text \<open>
  The values \<^verbatim>\<open>json.load\<close> can return. Floating-point numbers stay abstract: nothing
  here computes with them.
\<close>

typedecl py_float

datatype py_value =
    PyNone
  | PyBool bool
  | PyInt int
  | PyFloat py_float
  | PyStr string
  | PyList "py_value list"
  | PyDict "(string \<times> py_value) list"

datatype py_exception =
    FileNotFoundError
  | PermissionError
  | UnicodeDecodeError
  | JSONDecodeError

text \<open>
  The world outside the module: what opening a named file for reading and reading it
  to its end gives (its text, or the exception raised), and the decoder of the
  \<^verbatim>\<open>json\<close> library, which is not part of the repository and is taken as a
  parameter (the decoded value, or the exception raised).
\<close>

record environment =
  open_read :: "string \<Rightarrow> py_exception + string"
  json_load :: "string \<Rightarrow> py_exception + py_value"

text \<open>
  A \<^verbatim>\<open>try\<close> block with one bare \<^verbatim>\<open>except\<close> clause: the handler runs on every
  exception of the body, and what the handler raises escapes.
\<close>

definition try_except :: "'e + 'a \<Rightarrow> ('e \<Rightarrow> 'e + 'a) \<Rightarrow> 'e + 'a" where
  "try_except body handler = (case body of Inl e \<Rightarrow> handler e | Inr v \<Rightarrow> Inr v)"

text \<open>Lines 6 to 12 of \<^verbatim>\<open>src/questions.py\<close>.\<close>

definition get_questions :: "environment \<Rightarrow> py_exception + py_value" where
  "get_questions env =
     try_except
       (case open_read env ''all_questions.json'' of
          Inl e \<Rightarrow> Inl e
        | Inr f \<Rightarrow> json_load env f)
       (\<lambda>e. Inr (PyList []))"

text \<open>A value that is a list of strings, the shape the question collection is meant to have.\<close>

fun is_str :: "py_value \<Rightarrow> bool" where
  "is_str (PyStr s) = True"
| "is_str v = False"

fun is_str_list :: "py_value \<Rightarrow> bool" where
  "is_str_list (PyList vs) = list_all is_str vs"
| "is_str_list v = False"

section \<open>The subject catalog\<close>

text \<open>Lines 17 to 95 of \<^verbatim>\<open>src/questions.py\<close>: the list \<^verbatim>\<open>questions_generator\<close>.\<close>

definition questions_generator :: "string list" where
  \<open>questions_generator =
  [''byteball/ocore/aa_addresses.js'',
   ''byteball/ocore/aa_composer.js'',
   ''byteball/ocore/aa_validation.js'',
   ''byteball/ocore/arbiter_contract.js'',
   ''byteball/ocore/arbiters.js'',
   ''byteball/ocore/archiving. js'',
   ''byteball/ocore/balances.js'',
   ''byteball/ocore/bots.js'',
   ''byteball/ocore/breadcrumbs.js'',
   ''byteball/ocore/catchup.js'',
   ''byteball/ocore/chash. js'',
   ''byteball/ocore/chat_storage.js'',
   ''byteball/ocore/check_daemon.js'',
   ''byteball/ocore/composer.js'',
   ''byteball/ocore/conf. js'',
   ''byteball/ocore/constants.js'',
   ''byteball/ocore/data_feeds.js'',
   ''byteball/ocore/db.js'',
   ''byteball/ocore/definition.js'',
   ''byteball/ocore/desktop_app.js'',
   ''byteball/ocore/device.js'',
   ''byteball/ocore/divisible_asset.js'',
   ''byteball/ocore/enforce_singleton.js'',
   ''byteball/ocore/event_bus. js'',
   ''byteball/ocore/graph.js'',
   ''byteball/ocore/headers_commission.js'',
   ''byteball/ocore/indivisible_asset.js'',
   ''byteball/ocore/initial_votes.js'',
   ''byteball/ocore/inputs.js'',
   ''byteball/ocore/joint_storage. js'',
   ''byteball/ocore/kvstore.js'',
   ''byteball/ocore/light.js'',
   ''byteball/ocore/light_wallet.js'',
   ''byteball/ocore/mail.js'',
   ''byteball/ocore/main_chain.js'',
   ''byteball/ocore/mc_outputs.js'',
   ''byteball/ocore/merkle.js'',
   ''byteball/ocore/migrate_to_kv.js'',
   ''byteball/ocore/mutex.js'',
   ''byteball/ocore/my_witnesses.js'',
   ''byteball/ocore/mysql_pool. js'',
   ''byteball/ocore/network.js'',
   ''byteball/ocore/object_hash.js'',
   ''byteball/ocore/object_length.js'',
   ''byteball/ocore/paid_witnessing.js'',
   ''byteball/ocore/parent_composer.js'',
   ''byteball/ocore/private_payment.js'',
   ''byteball/ocore/private_profile. js'',
   ''byteball/ocore/profiler.js'',
   ''byteball/ocore/proof_chain.js'',
   ''byteball/ocore/prosaic_contract.js'',
   ''byteball/ocore/signature.js'',
   ''byteball/ocore/signed_message.js'',
   ''byteball/ocore/sqlite_migrations. js'',
   ''byteball/ocore/sqlite_pool.js'',
   ''byteball/ocore/storage.js'',
   ''byteball/ocore/string_utils.js'',
   ''byteball/ocore/uri. js'',
   ''byteball/ocore/validation.js'',
   ''byteball/ocore/validation_utils.js'',
   ''byteball/ocore/wallet.js'',
   ''byteball/ocore/wallet_defined_by_addresses.js'',
   ''byteball/ocore/wallet_defined_by_keys.js'',
   ''byteball/ocore/wallet_general.js'',
   ''byteball/ocore/witness_proof.js'',
   ''byteball/ocore/writer.js'',
   ''byteball/ocore/formula/common.js'',
   ''byteball/ocore/formula/evaluation. js'',
   ''byteball/ocore/formula/validation.js'',
   ''byteball/ocore/formula/parse_ojson.js'',
   ''byteball/ocore/formula/index. js'',
   ''byteball/ocore/tools/check_stability.js'',
   ''byteball/ocore/tools/replace_ops.js'',
   ''byteball/ocore/tools/supply.js'',
   ''byteball/ocore/tools/update_stability.js'',
   ''byteball/ocore/tools/validate_aa_definitions.js'',
   ''byteball/ocore/tools/viewkv.js'']\<close>

section \<open>The finding-generation prompt\<close>

text \<open>Lines 108 to 117 of \<^verbatim>\<open>src/questions.py\<close>.\<close>

definition qf_108_117 :: "string list" where
  \<open>qf_108_117 =
  ['''',
   ''You are an **Elite Distributed Ledger Security Auditor** specializing in '',
   ''DAG-based consensus systems, JavaScript VM sandboxing, cryptographic '',
   ''protocols, and decentralized network architectures.  Your task is to analyze '',
   ''the **Obyte (Byteball) Protocol** codebase'' @ em_dash @ ''a DAG-based distributed ledger '',
   ''featuring witness-based consensus, Autonomous Agents (AA smart contracts), '',
   ''deterministic unit validation, P2P network synchronization, multi-signature '',
   ''wallets, and oracle integration'' @ em_dash @ ''through the lens of this single security '',
   ''question: '',
   '''']\<close>

text \<open>Lines 119 to 134 of \<^verbatim>\<open>src/questions.py\<close>.\<close>

definition qf_119_134 :: "string list" where
  \<open>qf_119_134 =
  ['''',
   ''**OBYTE PROTOCOL CONTEXT:**'',
   '''',
   ''**Architecture**:  Obyte uses a Directed Acyclic Graph (DAG) where each '',
   ''transaction unit references multiple parent units.  Consensus is achieved '',
   ''through a witness list (12 trusted nodes per unit) that posts regular '',
   ''heartbeat transactions.  The main chain (MC) is determined by witness '',
   ''voting, and units become stable when witnessed by majority (7+ of 12) '',
   ''witnesses at higher levels.  Autonomous Agents (AAs) execute deterministic '',
   ''JavaScript-like formulas with sandboxed state access.  The protocol '',
   ''features native and custom assets (divisible/indivisible), multi-sig '',
   ''addresses, private payments, oracles, and light client support via '',
   ''witness proofs.'',
   '''',
   ''**Key Components**: '',
   '''']\<close>

text \<open>Lines 135 to 150 of \<^verbatim>\<open>src/questions.py\<close>.\<close>

definition qf_135_150 :: "string list" where
  \<open>qf_135_150 =
  [''* **DAG & Validation Layer**: `validation.js` (116KB - unit structure, '',
   ''  signatures, balance checks), `storage.js` (98KB - database operations), '',
   ''  `object_hash.js` (deterministic hashing), `graph. js` (DAG traversal), '',
   ''  `inputs.js` (double-spend prevention)'',
   '''',
   ''* **Consensus Layer**: `main_chain.js` (77KB - MC index determination, '',
   ''  stability points), `witness_proof.js` (light client proofs), '',
   ''  `initial_votes.js`, `my_witnesses.js` (witness list management)'',
   '''',
   ''* **Network Layer**:  `network.js` (156KB - P2P protocol, unit '',
   ''  broadcasting), `catchup.js` (sync protocol), `light. js` (34KB - light '',
   ''  client), `device.js` (38KB - device pairing)'',
   '''',
   ''* **AA Execution Engine**: `formula/evaluation.js` (106KB - formula '',
   ''  execution sandbox), `formula/validation.js` (46KB - syntax validation), '',
   ''  `aa_composer.js` (71KB - AA transaction builder), `aa_validation.js` '']\<close>

text \<open>Lines 151 to 166 of \<^verbatim>\<open>src/questions.py\<close>.\<close>

definition qf_151_166 :: "string list" where
  \<open>qf_151_166 =
  [''  (28KB - AA unit validation)'',
   '''',
   ''* **Transaction Layer**: `composer.js` (38KB - tx composition), '',
   ''  `parent_composer.js` (30KB - parent selection), `wallet. js` (122KB - '',
   ''  wallet operations), `writer.js` (34KB - unit writing)'',
   '''',
   ''* **Asset Layer**: `divisible_asset.js`, `indivisible_asset.js` (asset '',
   ''  transfers, issuance), `definition. js` (53KB - address definitions, '',
   ''  multi-sig)'',
   '''',
   ''* **Signature & Auth**:  `signature.js` (ECDSA verification), '',
   ''  `definition. js` (recursive definition evaluation)'',
   '''',
   ''* **Oracle & Data**: `data_feeds.js` (oracle data handling), '',
   ''  `arbiter_contract.js` (arbiter logic)'',
   '''']\<close>

text \<open>Lines 167 to 182 of \<^verbatim>\<open>src/questions.py\<close>.\<close>

definition qf_167_182 :: "string list" where
  \<open>qf_167_182 =
  [''* **Database**: `sqlite_pool.js`, `mysql_pool.js`, `joint_storage.js`, '',
   ''  `kvstore.js` (AA state storage)'',
   '''',
   ''**Files in Scope**:  All 77 JavaScript files in the `byteball/ocore` '',
   ''repository (core files, formula directory, tools directory). **Test files** '',
   ''under `./test/` are **out of scope** for vulnerability analysis but may be '',
   ''referenced for understanding expected behavior.'',
   '''',
   ''**CRITICAL INVARIANTS (derived from protocol specification and code):**'',
   '''',
   ''1. **Main Chain Monotonicity**: MCI (Main Chain Index) assignments must be '',
   ''   strictly increasing along any path in the DAG; no unit can have MCI '' @ less_than_or_equal_to @ '' '',
   ''   any descendant's MCI.  Non-deterministic MC selection causes permanent '',
   ''   chain splits.'',
   '''',
   ''2. **Witness Compatibility**: Every unit must share '' @ greater_than_or_equal_to @ ''1 witness with all '']\<close>

text \<open>Lines 183 to 198 of \<^verbatim>\<open>src/questions.py\<close>.\<close>

definition qf_183_198 :: "string list" where
  \<open>qf_183_198 =
  [''   ancestor units.  Incompatible witness lists cause permanent network '',
   ''   partition for all descendants.'',
   '''',
   ''3. **Stability Irreversibility**: Once a unit reaches stable MCI (witnessed '',
   ''   by 7+ of 12 witnesses), its content, position, and last ball are '',
   ''   immutable. Reverting stable units breaks historical integrity.'',
   '''',
   ''4. **Last Ball Consistency**: The last ball chain (hash chain of stable '',
   ''   units) must be unbroken. Forking or skipping last balls corrupts the '',
   ''   immutable history layer.'',
   '''',
   ''5. **Balance Conservation**: For every asset in a unit, '',
   ''   `'' @ greek_capital_sigma @ ''(input_amounts) '' @ greater_than_or_equal_to @ '' '' @ greek_capital_sigma @ ''(output_amounts) + fees`. No inflation/deflation '',
   ''   except authorized asset issuance.  Integer overflow/underflow breaks this. '',
   '''',
   ''6. **Double-Spend Prevention**: Each output (unit_hash, message_index, '']\<close>

text \<open>Lines 199 to 214 of \<^verbatim>\<open>src/questions.py\<close>.\<close>

definition qf_199_214 :: "string list" where
  \<open>qf_199_214 =
  [''   output_index) can be spent at most once. Database must enforce unique '',
   ''   constraint; race conditions or validation gaps allow double-spends.'',
   '''',
   ''7. **Input Validity**: All inputs must reference existing unspent outputs '',
   ''   owned by unit authors. Spending non-existent or already-spent outputs '',
   ''   violates balance integrity.'',
   '''',
   ''8. **Asset Cap Enforcement**:  Divisible asset issuance cannot exceed '',
   ''   `max_cap`. Total circulating supply must be tracked correctly; overflow '',
   ''   or missing checks mint unlimited tokens.'',
   '''',
   ''9. **Indivisible Serial Uniqueness**: Each indivisible asset serial must be '',
   ''   issued exactly once. Duplicate serials break NFT uniqueness guarantees.'',
   '''',
   ''10. **AA Deterministic Execution**:  Autonomous Agent formula evaluation must '',
   ''    produce identical results on all nodes for same input state. Non-'']\<close>

text \<open>Lines 215 to 230 of \<^verbatim>\<open>src/questions.py\<close>.\<close>

definition qf_215_230 :: "string list" where
  \<open>qf_215_230 =
  [''    determinism (random, timestamps, external I/O) causes state divergence '',
   ''    and chain splits.'',
   '''',
   ''11. **AA State Consistency**: AA state variable updates must be atomic.  '',
   ''    Race conditions or partial commits cause nodes to hold different state, '',
   ''    leading to validation disagreements.'',
   '''',
   ''12. **Bounce Correctness**: Failed AA executions must refund inputs minus '',
   ''    bounce fees via bounce response. Incorrect refund amounts or recipients '',
   ''    cause fund loss.'',
   '''',
   ''13. **Formula Sandbox Isolation**: AA formula execution must not access '',
   ''    filesystem, network, or host JavaScript APIs. Sandbox escapes allow '',
   ''    arbitrary code execution on validator nodes.'',
   '''',
   ''14. **Signature Binding**: Each author's signature must cover the exact '']\<close>

text \<open>Lines 231 to 246 of \<^verbatim>\<open>src/questions.py\<close>.\<close>

definition qf_231_246 :: "string list" where
  \<open>qf_231_246 =
  [''    unit hash (including all messages, parents, witnesses). Signature '',
   ''    malleability or hash manipulation allows unauthorized spending.'',
   '''',
   ''15. **Definition Evaluation Integrity**: Address definitions (multi-sig, '',
   ''    weighted, or/and logic) must evaluate correctly. Logic errors allow '',
   ''    unauthorized spending or signature bypass.'',
   '''',
   ''16. **Parent Validity**: All parent units must exist, be valid, and form a '',
   ''    DAG (no cycles). Invalid parents or cycles break DAG structure and '',
   ''    consensus.'',
   '''',
   ''17. **Witness Level Correctness**: Witness Level (WL) must be the minimum '',
   ''    level of witness-authored ancestors. Incorrect WL breaks MC '',
   ''    determination. '',
   '''',
   ''18. **Fee Sufficiency**: Unit fees must cover header + payload costs. '']\<close>

text \<open>Lines 247 to 262 of \<^verbatim>\<open>src/questions.py\<close>.\<close>

definition qf_247_262 :: "string list" where
  \<open>qf_247_262 =
  [''    Under-paid units accepted into DAG allow spam attacks.'',
   '''',
   ''19. **Catchup Completeness**: Syncing nodes must retrieve all units on MC '',
   ''    up to last stable point without gaps. Missing units cause validation '',
   ''    failures and permanent desync.'',
   '''',
   ''20. **Database Referential Integrity**: Foreign keys (unit '' @ rightwards_arrow @ '' parents, '',
   ''    messages '' @ rightwards_arrow @ '' units, inputs '' @ rightwards_arrow @ '' outputs) must be enforced. Orphaned records '',
   ''    corrupt DAG structure.'',
   '''',
   ''21. **Transaction Atomicity**: Multi-step operations (storing unit + '',
   ''    updating balances + spending outputs) must be atomic. Partial commits '',
   ''    cause inconsistent state.'',
   '''',
   ''22. **Timestamp Validity**: Unit timestamps must be reasonable (not far-'',
   ''    future or far-past relative to parent timestamps and MC). Invalid '']\<close>

text \<open>Lines 263 to 278 of \<^verbatim>\<open>src/questions.py\<close>.\<close>

definition qf_263_278 :: "string list" where
  \<open>qf_263_278 =
  [''    timestamps disrupt ordering and MC selection.'',
   '''',
   ''23. **Light Client Proof Integrity**:  Witness proofs must be unforgeable.  '',
   ''    Fake proofs trick light clients into accepting invalid history.'',
   '''',
   ''24. **Network Unit Propagation**: Valid units must propagate to all peers. '',
   ''    Selective censorship of witness units causes network partitions.'',
   '''',
   ''**YOUR INVESTIGATION MISSION:**'',
   '''',
   ''Accept the premise of the security question and explore **all** relevant '',
   ''code paths, data structures, state transitions, and cross-file '',
   ''interactions related to it. Do not settle for surface observations'' @ em_dash @ ''trace '',
   ''execution flows through validation '' @ rightwards_arrow @ '' storage '' @ rightwards_arrow @ '' network '' @ rightwards_arrow @ '' consensus layers. '',
   '''',
   ''Your goal is to find **one** concrete, exploitable vulnerability tied to '']\<close>

text \<open>Lines 279 to 294 of \<^verbatim>\<open>src/questions.py\<close>.\<close>

definition qf_279_294 :: "string list" where
  \<open>qf_279_294 =
  [''the question that an unprivileged user, malicious peer, MEV searcher, '',
   ''malicious AA, or compromised oracle could exploit. Focus on: '',
   '''',
   ''* Business-logic flaws (incorrect validation, missing checks)'',
   ''* Mathematical errors (overflow, underflow, precision loss, rounding)'',
   ''* Race conditions (concurrent unit submission, database access)'',
   ''* Non-deterministic behavior (timestamp comparisons, floating-point math)'',
   ''* Signature bypasses (malleability, hash collisions)'',
   ''* DAG structure corruption (invalid parents, cycles, witness incompatibility)'',
   ''* State divergence (AA execution differences across nodes)'',
   ''* Database integrity violations (orphaned records, constraint bypasses)'',
   ''* Network attacks (DoS, unit flooding, catchup poisoning)'',
   '''',
   ''**ATTACK SURFACE EXPLORATION:**'',
   '''',
   ''1. **Unit Validation Edge Cases** (`validation.js`, `inputs.js`):'']\<close>

text \<open>Lines 295 to 310 of \<^verbatim>\<open>src/questions.py\<close>.\<close>

definition qf_295_310 :: "string list" where
  \<open>qf_295_310 =
  [''   - Units with maximum parents (15) or witnesses (12)'',
   ''   - Zero outputs or zero-value payments'',
   ''   - Negative balances or integer overflow in input/output sums'',
   ''   - Conflicting messages in same unit (e.g., double asset definition)'',
   ''   - Timestamps far in past/future'',
   ''   - Invalid signature encoding or s-value malleability'',
   ''   - Input referencing non-existent or already-spent output'',
   ''   - Author addresses not matching signature public keys'',
   '''',
   ''2. **Main Chain Consensus** (`main_chain.js`, `witness_proof.js`):'',
   ''   - Non-deterministic comparison operations'',
   ''   - Floating-point arithmetic in MC index calculations'',
   ''   - Concurrent updates to last stable MCI from multiple threads'',
   ''   - Witness level miscalculation for complex parent structures'',
   ''   - Last ball forking when two units at same MCI reference previous last ball'',
   ''   - Stability point disagreement due to witness unit censorship'']\<close>

text \<open>Lines 311 to 326 of \<^verbatim>\<open>src/questions.py\<close>.\<close>

definition qf_311_326 :: "string list" where
  \<open>qf_311_326 =
  ['''',
   ''3. **AA Execution Sandbox** (`formula/evaluation.js`, `aa_composer.js`):'',
   ''   - Prototype pollution (`Object.prototype.x = malicious`)'',
   ''   - Constructor injection (`{}. constructor.constructor('malicious code')()`)'',
   ''   - `eval()` or `Function()` usage in formula evaluation'',
   ''   - Access to Node. js globals (`require`, `process`, `fs`, `__dirname`)'',
   ''   - Non-deterministic functions (`Math.random()`, `Date.now()`)'',
   ''   - Infinite loops or exponential complexity (no gas limits)'',
   ''   - State variable read/write race conditions during concurrent triggers'',
   ''   - Reentrancy via secondary triggers calling back into primary AA'',
   ''   - Bounce response amount miscalculation (rounding errors)'',
   ''   - Integer overflow in formula arithmetic (`BigInt` handling)'',
   '''',
   ''4. **Asset Operations** (`divisible_asset.js`, `indivisible_asset.js`):'',
   ''   - Issuing asset multiple times to exceed `max_cap`'',
   ''   - Duplicate serial numbers for indivisible assets'']\<close>

text \<open>Lines 327 to 342 of \<^verbatim>\<open>src/questions.py\<close>.\<close>

definition qf_327_342 :: "string list" where
  \<open>qf_327_342 =
  [''   - Transfer restrictions bypass (`cosigned_by_definer` missing)'',
   ''   - Decimal precision loss in divisible asset calculations'',
   ''   - Negative asset amounts or overflow in balance updates'',
   '''',
   ''5. **Network & Sync** (`network.js`, `catchup.js`, `light.js`):'',
   ''   - Unit flooding DoS (100k+ units/second overwhelming validation queue)'',
   ''   - Malicious parent selection causing validation bottlenecks'',
   ''   - Catchup protocol sending incorrect or skipped units'',
   ''   - Light client accepting forged witness proofs'',
   ''   - Peer censorship of witness units causing partition'',
   ''   - WebSocket message injection or malformed JSON payloads'',
   '''',
   ''6. **Transaction Composition** (`composer.js`, `parent_composer.js`, `wallet.js`):'',
   ''   - Input selection choosing already-spent outputs'',
   ''   - Fee calculation underestimating unit size'',
   ''   - Change output rounding errors causing value loss'']\<close>

text \<open>Lines 343 to 358 of \<^verbatim>\<open>src/questions.py\<close>.\<close>

definition qf_343_358 :: "string list" where
  \<open>qf_343_358 =
  [''   - Parent selection bias delaying confirmation'',
   ''   - Multi-asset transaction with missing asset in input/output sums'',
   '''',
   ''7. **Database Operations** (`storage.js`, `joint_storage.js`, `sqlite_pool.js`, `mysql_pool.js`):'',
   ''   - SQL injection via unit messages or address strings'',
   ''   - Race condition in concurrent unit storage (duplicate inserts)'',
   ''   - Database deadlock during complex transactions'',
   ''   - Foreign key constraint violations orphaning records'',
   ''   - Index corruption causing incorrect validation lookups'',
   ''   - Transaction rollback leaving partial state'',
   '''',
   ''8. **Signature & Authorization** (`signature.js`, `definition.js`):'',
   ''   - ECDSA s-value malleability'',
   ''   - Multi-sig definition evaluation bypass'',
   ''   - Definition change attack'',
   ''   - Address collision'']\<close>

text \<open>Lines 359 to 374 of \<^verbatim>\<open>src/questions.py\<close>.\<close>

definition qf_359_374 :: "string list" where
  \<open>qf_359_374 =
  [''   - Signature verification using wrong hash'',
   '''',
   ''9. **Oracle & Data Feeds** (`data_feeds.js`):'',
   ''   - Oracle signature verification bypass'',
   ''   - Timestamp spoofing in data feed messages'',
   ''   - AA trusting single oracle without redundancy'',
   ''   - Data feed censorship preventing AA execution'',
   '''',
   ''10. **Graph Operations** (`graph.js`, `object_hash.js`):'',
   ''    - Parent cycle detection failure'',
   ''    - Hash collision or preimage attack on unit hashes'',
   ''    - Best parent selection non-determinism'',
   ''    - DAG traversal infinite loop on malformed graph'',
   '''',
   ''**OBYTE-SPECIFIC ATTACK VECTORS:**'',
   '''']\<close>

text \<open>Lines 375 to 390 of \<^verbatim>\<open>src/questions.py\<close>.\<close>

definition qf_375_390 :: "string list" where
  \<open>qf_375_390 =
  [''- **Chain Split via Non-Deterministic MC**:  Can floating-point math, timestamp ties, or hash collisions cause different nodes to select different main chains? '',
   ''- **Double-Spend via Race Condition**: Can two units spending same output both be accepted if submitted simultaneously to different nodes?'',
   ''- **AA Sandbox Escape**: Can attacker craft formula using prototype pollution, constructor injection, or eval to execute arbitrary Node.js code?'',
   ''- **Witness Incompatibility Partition**: Can attacker post unit with witness list incompatible with all parents, causing permanent split?'',
   ''- **Balance Overflow/Underflow**: Can integer overflow in asset balance calculations mint unlimited tokens?'',
   ''- **Last Ball Fork**: Can two units at same MCI both become last ball? '',
   ''- **Light Client Proof Forgery**: Can attacker generate fake witness proof? '',
   ''- **Unit Flooding DoS**: Can attacker submit massive number of valid units exceeding node processing capacity? '',
   ''- **AA State Divergence**: Can concurrent AA triggers cause different nodes to reach different state? '',
   ''- **Cascading Trigger Reentrancy**: Can AA trigger itself via secondary response before state is committed?'',
   ''- **Definition Change Theft**: Can attacker submit `definition_chg` message replacing victim's address definition?'',
   ''- **Asset Cap Bypass**: Can attacker issue divisible asset multiple times to exceed `max_cap`?'',
   ''- **Indivisible Serial Collision**: Can same serial number be issued twice? '',
   ''- **Signature Malleability**: Can attacker flip ECDSA s-value to create different valid signature? '',
   ''- **SQL Injection**: Can attacker inject SQL via unit messages or addresses?'',
   ''- **Catchup Poisoning**: Can malicious peer send incorrect units during sync? '']\<close>

text \<open>Lines 391 to 406 of \<^verbatim>\<open>src/questions.py\<close>.\<close>

definition qf_391_406 :: "string list" where
  \<open>qf_391_406 =
  ['''',
   ''**TRUST MODEL:**'',
   '''',
   ''**Trusted Roles**:  Witnesses (12 per unit), oracle data feed providers, '',
   ''hub operators (for light clients). Do **not** assume these actors behave '',
   ''maliciously unless the question explicitly explores compromised witness '',
   ''or oracle scenarios.'',
   '''',
   ''**Untrusted Actors**: Any user submitting units, AA developers, malicious '',
   ''peers, MEV searchers, adversarial AAs attempting to exploit other AAs.  '',
   ''Focus your analysis on bugs exploitable by untrusted actors without '',
   ''requiring witness collusion, oracle compromise, or governance '',
   ''misconfiguration.'',
   '''',
   ''**KNOWN ISSUES / EXCLUSIONS:**'',
   '''']\<close>

text \<open>Lines 407 to 422 of \<^verbatim>\<open>src/questions.py\<close>.\<close>

definition qf_407_422 :: "string list" where
  \<open>qf_407_422 =
  [''- Cryptographic primitives (SHA256, ECDSA) are assumed secure'',
   ''- Witness collusion or 7+ of 12 witnesses acting maliciously'',
   ''- Oracle data accuracy (oracles are trusted to provide correct data)'',
   ''- Network-level attacks (DDoS, BGP hijacking, DNS poisoning)'',
   ''- Node.js runtime bugs (V8 engine bugs, libuv issues) unrelated to Obyte code'',
   ''- Social engineering, phishing, or key theft'',
   ''- Gas optimization, code style, missing comments'',
   ''- Precision loss <0.01% in fee calculations'',
   ''- Test file issues (tests are out of scope)'',
   '''',
   ''**VALID IMPACT CATEGORIES (Immunefi Obyte Bug Bounty):**'',
   '''',
   ''**Critical Severity**:'',
   ''- Network not being able to confirm new transactions (total shutdown >24 hours)'',
   ''- Unintended permanent chain split requiring hard fork'',
   ''- Direct loss of funds (theft of bytes or custom assets)'']\<close>

text \<open>Lines 423 to 438 of \<^verbatim>\<open>src/questions.py\<close>.\<close>

definition qf_423_438 :: "string list" where
  \<open>qf_423_438 =
  [''- Permanent freezing of funds (fix requires hardfork)'',
   '''',
   ''**High Severity**:'',
   ''- Permanent freezing of funds requiring hard fork to resolve'',
   '''',
   ''**Medium Severity**:'',
   ''- Temporary freezing of network transactions ('' @ greater_than_or_equal_to @ ''1 day delay)'',
   ''- Temporary freezing of network transactions ('' @ greater_than_or_equal_to @ ''1 hour delay)'',
   ''- Unintended AA behavior with no concrete funds at direct risk'',
   '''',
   ''**Low/QA (out of scope)**:'',
   ''- Minor precision loss (<0.01%)'',
   ''- Gas inefficiencies'',
   ''- Event emission or logging issues'',
   ''- Non-critical edge cases with no financial impact'',
   ''- UI/UX issues'']\<close>

text \<open>Lines 439 to 454 of \<^verbatim>\<open>src/questions.py\<close>.\<close>

definition qf_439_454 :: "string list" where
  \<open>qf_439_454 =
  ['''',
   ''**OUTPUT REQUIREMENTS:**'',
   '''',
   ''If you discover a valid vulnerability related to the security question, '',
   ''produce a **full report** following the format below.  Your report must include: '',
   ''- Exact file paths and function names'',
   ''- Code quotations (actual snippets from the 77 in-scope files)'',
   ''- Step-by-step exploitation path with realistic parameters'',
   ''- Clear explanation of which invariant is broken'',
   ''- Impact quantification (fund loss amount, network downtime duration)'',
   ''- Likelihood assessment (attacker profile, preconditions, complexity)'',
   ''- Concrete recommendation with code fix'',
   ''- Proof of Concept (JavaScript/Node.js test demonstrating the exploit)'',
   '''',
   ''If **no** valid vulnerability emerges after thorough investigation, state exactly: '',
   ''`#NoVulnerability found for this question. `'']\<close>

text \<open>Lines 455 to 470 of \<^verbatim>\<open>src/questions.py\<close>.\<close>

definition qf_455_470 :: "string list" where
  \<open>qf_455_470 =
  ['''',
   ''**Do not fabricate or exaggerate issues. ** Only concrete, exploitable bugs with clear attack paths and realistic impact count.'',
   '''',
   ''**Do not** report: '',
   ''- Known issues from previous audits or documentation'',
   ''- Out-of-scope problems (test files, Node.js bugs, crypto primitive breaks)'',
   ''- Theoretical vulnerabilities without clear attack path and PoC'',
   ''- Issues requiring trusted roles to behave maliciously'',
   ''- Minor optimizations, style issues, or low-severity findings'',
   '''',
   ''**Focus on one high-quality finding** rather than multiple weak claims.'',
   '''',
   ''**VALIDATION CHECKLIST (Before Reporting):**'',
   ''- [ ] Vulnerability lies within one of the 77 in-scope files (not test/)'',
   ''- [ ] Exploitable by unprivileged attacker (no witness/oracle collusion required)'',
   ''- [ ] Attack path is realistic with correct data types and feasible parameters'']\<close>

text \<open>Lines 471 to 486 of \<^verbatim>\<open>src/questions.py\<close>.\<close>

definition qf_471_486 :: "string list" where
  \<open>qf_471_486 =
  [''- [ ] Impact meets Critical, High, or Medium severity per Immunefi scope'',
   ''- [ ] PoC can be implemented as Node.js test or unit submission script'',
   ''- [ ] Issue breaks at least one documented invariant'',
   ''- [ ] Not a known exclusion'',
   ''- [ ] Clear financial harm, network disruption, or state divergence demonstrated'',
   '''',
   ''---'',
   '''',
   ''**AUDIT REPORT FORMAT** (if vulnerability found):'',
   '''',
   ''## Title'',
   ''[Clear, specific vulnerability name tied to the question]'',
   '''',
   ''## Summary'',
   ''[Concise 2-3 sentence description of the issue and its location]'',
   '''']\<close>

text \<open>Lines 487 to 502 of \<^verbatim>\<open>src/questions.py\<close>.\<close>

definition qf_487_502 :: "string list" where
  \<open>qf_487_502 =
  [''## Impact'',
   ''**Severity**: [Critical / High / Medium]'',
   ''**Category**: [Network Shutdown / Chain Split / Direct Fund Loss / Permanent Fund Freeze / Temporary Transaction Delay / Unintended AA Behavior]'',
   '''',
   ''## Finding Description'',
   '''',
   ''**Location**: `byteball/ocore/[filename]. js` (specific function name, line numbers if possible)'',
   '''',
   ''**Intended Logic**: [What the code should do per comments/protocol spec]'',
   '''',
   ''**Actual Logic**: [What the code does in the vulnerable scenario]'',
   '''',
   ''**Code Evidence**:'',
   ''```javascript'',
   ''// Quote relevant code snippet from the file showing the bug'',
   ''// Include surrounding context (5-10 lines) for clarity'']\<close>

text \<open>Lines 503 to 518 of \<^verbatim>\<open>src/questions.py\<close>.\<close>

definition qf_503_518 :: "string list" where
  \<open>qf_503_518 =
  [''```'',
   '''',
   ''**Exploitation Path**:'',
   ''1. **Preconditions**: [Initial state]'',
   ''2. **Step 1**: [Specific action with parameters and code path triggered]'',
   ''3. **Step 2**: [Subsequent state change - database and node observations]'',
   ''4. **Step 3**: [Follow-up action exploiting the state]'',
   ''5. **Step 4**: [Unauthorized outcome and invariant broken]'',
   '''',
   ''**Security Property Broken**: [Which of the 24 invariants is violated]'',
   '''',
   ''**Root Cause Analysis**:  [Deep dive into why the bug exists]'',
   '''',
   ''## Impact Explanation'',
   '''',
   ''**Affected Assets**: [bytes, custom assets, AA state, user balances]'']\<close>

text \<open>Lines 519 to 534 of \<^verbatim>\<open>src/questions.py\<close>.\<close>

definition qf_519_534 :: "string list" where
  \<open>qf_519_534 =
  ['''',
   ''**Damage Severity**:'',
   ''- **Quantitative**: [Specific amounts and scale]'',
   ''- **Qualitative**: [Nature of damage]'',
   '''',
   ''**User Impact**:'',
   ''- **Who**: [Affected parties]'',
   ''- **Conditions**: [When exploitable]'',
   ''- **Recovery**: [Recovery options]'',
   '''',
   ''**Systemic Risk**: [Cascading effects and automation potential]'',
   '''',
   ''## Likelihood Explanation'',
   '''',
   ''**Attacker Profile**:'',
   ''- **Identity**: [Type of attacker]'']\<close>

text \<open>Lines 535 to 550 of \<^verbatim>\<open>src/questions.py\<close>.\<close>

definition qf_535_550 :: "string list" where
  \<open>qf_535_550 =
  [''- **Resources Required**: [What attacker needs]'',
   ''- **Technical Skill**: [Skill level required]'',
   '''',
   ''**Preconditions**:'',
   ''- **Network State**: [Required network conditions]'',
   ''- **Attacker State**: [Required attacker position]'',
   ''- **Timing**: [Timing requirements]'',
   '''',
   ''**Execution Complexity**:'',
   ''- **Transaction Count**: [Number of transactions needed]'',
   ''- **Coordination**: [Coordination requirements]'',
   ''- **Detection Risk**: [How detectable is the attack]'',
   '''',
   ''**Frequency**:'',
   ''- **Repeatability**: [How often can it be repeated]'',
   ''- **Scale**: [Attack scope]'']\<close>

text \<open>Lines 551 to 566 of \<^verbatim>\<open>src/questions.py\<close>.\<close>

definition qf_551_566 :: "string list" where
  \<open>qf_551_566 =
  ['''',
   ''**Overall Assessment**:  [High/Medium/Low likelihood assessment]'',
   '''',
   ''## Recommendation'',
   '''',
   ''**Immediate Mitigation**: [Short-term fix]'',
   '''',
   ''**Permanent Fix**: [Long-term solution]'',
   '''',
   ''**Code Changes**:'',
   ''```javascript'',
   ''// File: byteball/ocore/[filename].js'',
   ''// Function: [functionName]'',
   '''',
   ''// BEFORE (vulnerable code):'',
   ''function vulnerableFunction(param) {'']\<close>

text \<open>Lines 567 to 582 of \<^verbatim>\<open>src/questions.py\<close>.\<close>

definition qf_567_582 :: "string list" where
  \<open>qf_567_582 =
  [''     existing vulnerable logic'',
   ''    }'',
   '''',
   ''// AFTER (fixed code):'',
   ''function vulnerableFunction(param) {'',
   ''    // fixed logic with validation'',
   ''}'',
   ''```'',
   '''',
   ''  **Additional Measures**:'',
   ''- [New test cases]'',
   ''- [Database schema changes]'',
   ''- [Monitoring/alerting]'',
   '''',
   ''**Validation**:'',
   ''- [ ] Fix prevents exploitation'']\<close>

text \<open>Lines 583 to 598 of \<^verbatim>\<open>src/questions.py\<close>.\<close>

definition qf_583_598 :: "string list" where
  \<open>qf_583_598 =
  [''                   - [ ] No new vulnerabilities introduced'',
   ''                                                - [ ] Backward compatible'',
   ''                                                               - [ ] Performance impact acceptable'',
   '''',
   ''                                                                                        ## Proof of Concept'',
   '''',
   ''                                                                                        **Test Environment Setup**:'',
   ''```bash'',
   ''git clone https://github.com/byteball/ocore.git'',
   ''cd ocore'',
   ''npm install'',
   ''```'',
   '''',
   ''  **Exploit Script** (`exploit_poc.js`):'',
   ''```javascript'',
   ''   /*'']\<close>

text \<open>Lines 599 to 614 of \<^verbatim>\<open>src/questions.py\<close>.\<close>

definition qf_599_614 :: "string list" where
  \<open>qf_599_614 =
  [''   * Proof of Concept for [Vulnerability Name]'',
   ''                          * Demonstrates:  [what the PoC shows]'',
   ''                                           * Expected Result: [what happens when vulnerability is present]'',
   ''                                                              */'',
   '''',
   ''                                                              const network = require('./network. js');'',
   ''const composer = require('./composer.js');'',
   ''const validation = require('./validation.js');'',
   ''const storage = require('./storage.js');'',
   '''',
   ''async function runExploit() {'',
   ''// Implementation showing the exploit'',
   ''}'',
   '''',
   ''runExploit().then(success => {'',
   ''    process.exit(success ? 0 : 1);'']\<close>

text \<open>Lines 615 to 630 of \<^verbatim>\<open>src/questions.py\<close>.\<close>

definition qf_615_630 :: "string list" where
  \<open>qf_615_630 =
  [''});'',
   ''```'',
   '''',
   ''  **Expected Output** (when vulnerability exists):'',
   ''```'',
   ''[Output showing successful exploit]'',
   ''```'',
   '''',
   ''**Expected Output** (after fix applied):'',
   ''```'',
   ''[Output showing exploit prevention]'',
   ''```'',
   '''',
   ''**PoC Validation**:'',
   ''- [ ] PoC runs against unmodified ocore codebase'',
   ''                                        - [ ] Demonstrates clear violation of invariant'']\<close>

text \<open>Lines 631 to 646 of \<^verbatim>\<open>src/questions.py\<close>.\<close>

definition qf_631_646 :: "string list" where
  \<open>qf_631_646 =
  [''                                                                              - [ ] Shows measurable impact'',
   ''                                                                                                     - [ ] Fails gracefully after fix applied'',
   '''',
   ''                                                                                                                                      ---'',
   '''',
   ''**If NO vulnerability found, output ONLY:**'',
   ''`#NoVulnerability found for this question.`'',
   '''',
   ''---'',
   '''',
   ''**FINAL REMINDERS:**'',
   '''',
   ''- Trace entire execution flows from user action '' @ rightwards_arrow @ '' validation '' @ rightwards_arrow @ '' storage '' @ rightwards_arrow @ '' consensus '' @ rightwards_arrow @ '' network propagation'',
   ''                                                                                             - Test DAG structure edge cases'',
   ''                                                                                                                       - Validate AA sandbox rigorously'',
   ''                                                                                                                                             - Check race conditions thoroughly'']\<close>

text \<open>Lines 647 to 654 of \<^verbatim>\<open>src/questions.py\<close>.\<close>

definition qf_647_654 :: "string list" where
  \<open>qf_647_654 =
  [''                                                                                                                                                                     - Verify integer arithmetic'',
   ''                                                                                                                                                                                      - Examine signature validation'',
   ''                                                                                                                                                                                                          - Test network attack vectors'',
   ''                                                                                                                                                                                                                                - Inspect database operations'',
   ''                                                                                                                                                                                                                                                   - Be absolutely certain before reporting'',
   ''                                                                                                                                                                                                                                                                                  - If any doubt remains, default to reporting no vulnerability'',
   '''',
   ''Now investigate the security question thoroughly and produce your finding.'']\<close>

text \<open>The rows of the f-string of \<^verbatim>\<open>question_format\<close> (lines 108 to 654), the
  replacement field \<^verbatim>\<open>{question}\<close> filled in.\<close>

definition question_format_rows :: "string \<Rightarrow> string list" where
  \<open>question_format_rows question =
    qf_108_117 @
    [''**Security Question (scope for this run):** '' @ question] @
    qf_119_134 @
    qf_135_150 @
    qf_151_166 @
    qf_167_182 @
    qf_183_198 @
    qf_199_214 @
    qf_215_230 @
    qf_231_246 @
    qf_247_262 @
    qf_263_278 @
    qf_279_294 @
    qf_295_310 @
    qf_311_326 @
    qf_327_342 @
    qf_343_358 @
    qf_359_374 @
    qf_375_390 @
    qf_391_406 @
    qf_407_422 @
    qf_423_438 @
    qf_439_454 @
    qf_455_470 @
    qf_471_486 @
    qf_487_502 @
    qf_503_518 @
    qf_519_534 @
    qf_535_550 @
    qf_551_566 @
    qf_567_582 @
    qf_583_598 @
    qf_599_614 @
    qf_615_630 @
    qf_631_646 @
    qf_647_654\<close>

definition question_format :: "string \<Rightarrow> string" where
  "question_format question = text_of_rows (question_format_rows question)"

section \<open>The finding-validation prompt\<close>

text \<open>Lines 669 to 674 of \<^verbatim>\<open>src/questions.py\<close>.\<close>

definition vf_669_674 :: "string list" where
  \<open>vf_669_674 =
  ['''',
   ''You are an **Elite Distributed Ledger Security Judge** with deep expertise in DAG-based consensus systems, JavaScript VM sandboxing, Obyte (Byteball) Protocol architecture, and Immunefi bug bounty validation.  Your ONLY task is **ruthless technical validation** of security claims against the Obyte codebase.'',
   '''',
   ''Note:  Witnesses (12 per unit) and oracle providers are trusted roles. '',
   '''',
   ''**SECURITY CLAIM TO VALIDATE:**'']\<close>

text \<open>Lines 676 to 691 of \<^verbatim>\<open>src/questions.py\<close>.\<close>

definition vf_676_691 :: "string list" where
  \<open>vf_676_691 =
  ['''',
   ''================================================================================'',
   ''## **OBYTE PROTOCOL VALIDATION FRAMEWORK**'',
   '''',
   ''### **PHASE 1: IMMEDIATE DISQUALIFICATION CHECKS**'',
   ''Reject immediately (`#NoVulnerability`) if **ANY** apply:'',
   '''',
   ''#### **A.  Scope Violations**'',
   ''- '' @ cross_mark @ '' Affects files **not** in the 77 in-scope files from `byteball/ocore` repository'',
   ''- '' @ cross_mark @ '' Targets any file under `./test/` directory (tests are out of scope)'',
   ''- '' @ cross_mark @ '' Claims about documentation, comments, code style, or logging (not security issues)'',
   ''- '' @ cross_mark @ '' Focuses on out-of-scope components:  UI, wallets, SDKs, deployment scripts, or external dependencies'',
   '''',
   ''**In-Scope Files (77 total):**'',
   ''- **Core Protocol**:  `validation.js`, `storage.js`, `main_chain.js`, `network.js`, `wallet.js`, `composer.js`, `writer.js`, `graph.js`, `object_hash.js`, `signature.js`, `definition.js`, `inputs.js`, `parent_composer.js`, `joint_storage.js`, `catchup.js`, `light. js`, `device.js`, `witness_proof.js`, `data_feeds.js`, `arbiter_contract.js`, `divisible_asset.js`, `indivisible_asset.js`, and others'',
   ''- **AA Engine**: `formula/evaluation.js`, `formula/validation.js`, `aa_composer.js`, `aa_validation.js`, `aa_addresses.js`'']\<close>

text \<open>Lines 692 to 707 of \<^verbatim>\<open>src/questions.py\<close>.\<close>

definition vf_692_707 :: "string list" where
  \<open>vf_692_707 =
  [''- **Database**: `sqlite_pool.js`, `mysql_pool.js`, `sqlite_migrations.js`, `kvstore.js`'',
   ''- **Tools**: `tools/check_stability.js`, `tools/validate_aa_definitions.js`, etc. '',
   '''',
   ''**Verify**:  Check that every file path cited in the report matches exactly one of the 77 in-scope files. '',
   '''',
   ''#### **B. Threat Model Violations**'',
   ''- '' @ cross_mark @ '' Requires 7+ of 12 witnesses to collude or act maliciously (witnesses are trusted)'',
   ''- '' @ cross_mark @ '' Assumes compromised oracle data feed providers (oracles are trusted to provide correct data)'',
   ''- '' @ cross_mark @ '' Needs hub operators to manipulate light client messages (hubs are trusted for light clients)'',
   ''- '' @ cross_mark @ '' Requires attacker to compromise Node.js runtime, V8 engine, or operating system'',
   ''- '' @ cross_mark @ '' Assumes cryptographic primitives (SHA256, ECDSA) are broken without quantum computers'',
   ''- '' @ cross_mark @ '' Depends on network-level attacks:  DDoS, BGP hijacking, DNS poisoning, or packet manipulation'',
   ''- '' @ cross_mark @ '' Relies on social engineering, phishing, key theft, or user operational security failures'',
   '''',
   ''**Trusted Roles**:  Witnesses post regular heartbeat units and vote on main chain; oracles provide signed data feeds; hub operators relay messages for light clients.   Do **not** assume these actors behave maliciously.'',
   '''']\<close>

text \<open>Lines 708 to 723 of \<^verbatim>\<open>src/questions.py\<close>.\<close>

definition vf_708_723 :: "string list" where
  \<open>vf_708_723 =
  [''**Untrusted Actors**: Any user submitting units, AA developers deploying smart contracts, malicious peers in P2P network, MEV bots, adversarial AAs attempting to exploit other AAs. '',
   '''',
   ''#### **C. Known Issues / Accepted Risks**'',
   ''- '' @ cross_mark @ '' Cryptographic hash collisions or preimage attacks on SHA256 (assumed secure)'',
   ''- '' @ cross_mark @ '' ECDSA signature forgery without private key (assumed secure)'',
   ''- '' @ cross_mark @ '' Witness collusion (7+ of 12 witnesses required; trusted role)'',
   ''- '' @ cross_mark @ '' Oracle data accuracy issues (oracles trusted to provide correct prices/data)'',
   ''- '' @ cross_mark @ '' Network partition attacks (DDoS, routing attacks) outside protocol logic'',
   ''- '' @ cross_mark @ '' Node.js runtime bugs (V8, libuv) unrelated to Obyte-specific code'',
   ''- '' @ cross_mark @ '' Precision loss <0.01% in fee calculations (acceptable rounding)'',
   '''',
   ''#### **D. Non-Security Issues**'',
   ''- '' @ cross_mark @ '' Gas optimizations, performance improvements, or micro-optimizations'',
   ''- '' @ cross_mark @ '' Code style, naming conventions, or refactoring suggestions'',
   ''- '' @ cross_mark @ '' Missing events, logs, error messages, or better user experience'',
   ''- '' @ cross_mark @ '' NatSpec comments, documentation improvements, or README updates'']\<close>

text \<open>Lines 724 to 739 of \<^verbatim>\<open>src/questions.py\<close>.\<close>

definition vf_724_739 :: "string list" where
  \<open>vf_724_739 =
  [''- '' @ cross_mark @ '' "Best practices" recommendations with no concrete exploit scenario'',
   ''- '' @ cross_mark @ '' Input validation preventing honest user mistakes (e.g., reject zero address) unless it allows theft'',
   ''- '' @ cross_mark @ '' Minor precision errors with negligible financial impact (<0.01%)'',
   '''',
   ''#### **E. Invalid Exploit Scenarios**'',
   ''- '' @ cross_mark @ '' Requires impossible inputs:  negative integers (JavaScript doesn't have unsigned types but validation should check), addresses longer than valid format, timestamps beyond realistic bounds'',
   ''- '' @ cross_mark @ '' Cannot be triggered through any realistic unit submission or AA trigger'',
   ''- '' @ cross_mark @ '' Depends on calling internal functions not exposed through any public API'',
   ''- '' @ cross_mark @ '' Relies on race conditions that are prevented by database transactions or mutex locks'',
   ''- '' @ cross_mark @ '' Needs multiple ordered units with no economic incentive or unrealistic coordination'',
   ''- '' @ cross_mark @ '' Requires attacker to already possess the funds they seek to steal (self-draining is not an exploit)'',
   ''- '' @ cross_mark @ '' Depends on miner/validator controlling block timestamp beyond reasonable bounds ('' @ plus_minus_sign @ ''15 minutes)'',
   '''',
   ''### **PHASE 2: OBYTE-SPECIFIC DEEP CODE VALIDATION**'',
   '''',
   ''#### **Step 1: TRACE COMPLETE EXECUTION PATH THROUGH DAG ARCHITECTURE**'']\<close>

text \<open>Lines 740 to 755 of \<^verbatim>\<open>src/questions.py\<close>.\<close>

definition vf_740_755 :: "string list" where
  \<open>vf_740_755 =
  ['''',
   ''**Obyte Flow Patterns:**'',
   '''',
   ''1. **Unit Submission Flow**:'',
   ''   User creates unit '' @ rightwards_arrow @ '' `composer.js` constructs unit '' @ rightwards_arrow @ '' `parent_composer.js` selects parents '' @ rightwards_arrow @ '' `object_hash.js` computes hash '' @ rightwards_arrow @ '' `signature.js` signs '' @ rightwards_arrow @ '' `network.js` broadcasts '' @ rightwards_arrow @ '' `validation.js` validates '' @ rightwards_arrow @ '' `storage.js` stores '' @ rightwards_arrow @ '' `main_chain.js` updates MC '' @ rightwards_arrow @ '' `witness_proof.js` generates proofs'',
   '''',
   ''2. **AA Trigger Flow**:'',
   ''   User sends trigger unit '' @ rightwards_arrow @ '' `aa_composer.js` detects AA address '' @ rightwards_arrow @ '' `formula/validation.js` validates formula syntax '' @ rightwards_arrow @ '' `formula/evaluation.js` executes formula '' @ rightwards_arrow @ '' AA response unit created '' @ rightwards_arrow @ '' Secondary triggers cascade '' @ rightwards_arrow @ '' State variables updated in `kvstore.js`'',
   '''',
   ''3. **Asset Transfer Flow**:'',
   ''   Unit with payment message '' @ rightwards_arrow @ '' `inputs.js` validates input references '' @ rightwards_arrow @ '' `divisible_asset.js` or `indivisible_asset.js` processes transfer '' @ rightwards_arrow @ '' Balance checks in `validation.js` '' @ rightwards_arrow @ '' Outputs recorded in `storage.js`'',
   '''',
   ''4. **Consensus Flow**:'',
   ''   New units arrive '' @ rightwards_arrow @ '' `graph.js` builds DAG structure '' @ rightwards_arrow @ '' `witness_proof.js` tracks witness units '' @ rightwards_arrow @ '' `main_chain.js` determines MC index and stability '' @ rightwards_arrow @ '' Last ball updated '' @ rightwards_arrow @ '' Stable units become immutable'',
   '''',
   ''For each claim, reconstruct the entire execution path: '']\<close>

text \<open>Lines 756 to 771 of \<^verbatim>\<open>src/questions.py\<close>.\<close>

definition vf_756_771 :: "string list" where
  \<open>vf_756_771 =
  ['''',
   ''1. **Identify Entry Point**:  Which user-facing function is called?  (`network.handleJoint()`, `composer.composeJoint()`, `wallet.sendPayment()`, etc.)'',
   ''2. **Follow Internal Calls**: Trace through all function calls, including: '',
   ''   - Validation checks in `validation.js:validate()`'',
   ''   - Database queries in `storage.js`'',
   ''   - MC updates in `main_chain.js`'',
   ''   - AA execution in `formula/evaluation.js`'',
   ''3. **State Before Exploit**: Document initial state (unit graph, balances, AA state, witness list, MC index)'',
   ''4. **State Transitions**:  Enumerate all changes (new units, spent outputs, AA state updates, MC advancement)'',
   ''5. **Check Protections**: Verify if mutex locks (`mutex.js`), database transactions, or validation gates prevent the exploit'',
   ''6. **Final State**: Show how the exploit results in unauthorized state (double-spend, inflated balance, broken consensus)'',
   '''',
   ''#### **Step 2: VALIDATE EVERY CLAIM WITH CODE EVIDENCE**'',
   '''',
   ''For **each assertion** in the report, demand:'',
   '''']\<close>

text \<open>Lines 772 to 787 of \<^verbatim>\<open>src/questions.py\<close>.\<close>

definition vf_772_787 :: "string list" where
  \<open>vf_772_787 =
  [''**'' @ white_heavy_check_mark @ '' Required Evidence:**'',
   ''- Exact file path and line numbers (e.g., `validation.js:450-475`) within the 77 in-scope files'',
   ''- Direct JavaScript code quotes showing the vulnerable logic'',
   ''- Call traces with actual parameter values demonstrating how execution reaches the vulnerable line'',
   ''- Calculations showing how balances, MC indices, or AA state change incorrectly'',
   ''- Database schema references showing constraint violations or missing checks'',
   '''',
   ''**'' @ triangular_flag_on_post @ '' RED FLAGS (indicate INVALID):**'',
   '''',
   ''1. **"Missing Validation" Claims**:'',
   ''   - '' @ cross_mark @ '' Invalid unless report shows input bypasses *all* validation layers: '',
   ''     - `validation.js:validate()` checks'',
   ''     - `inputs.js:validateInputs()` checks'',
   ''     - `aa_validation.js` checks for AA triggers'',
   ''     - Database constraint checks'',
   ''   - '' @ white_heavy_check_mark @ '' Valid if a specific input type genuinely has no validation path'']\<close>

text \<open>Lines 788 to 803 of \<^verbatim>\<open>src/questions.py\<close>.\<close>

definition vf_788_803 :: "string list" where
  \<open>vf_788_803 =
  ['''',
   ''2. **"Double-Spend" Claims**:'',
   ''   - '' @ cross_mark @ '' Invalid unless report demonstrates: '',
   ''     - Two units spending same output both pass validation'',
   ''     - Database unique constraint on `(unit, message_index, output_index)` is missing or bypassable'',
   ''     - Race condition window exists between validation and storage commit'',
   ''   - '' @ white_heavy_check_mark @ '' Valid if concurrent submission to different nodes can result in both units being accepted into DAG'',
   '''',
   ''3. **"Integer Overflow/Underflow" Claims**: '',
   ''   - '' @ cross_mark @ '' Invalid unless JavaScript number handling allows exploitation:'',
   ''     - JavaScript uses floating-point numbers (no native int64)'',
   ''     - Obyte uses libraries for big integers where needed'',
   ''     - Report must show actual overflow causing incorrect balance calculation'',
   ''   - '' @ white_heavy_check_mark @ '' Valid if arithmetic operations produce incorrect results with attacker-controlled inputs'',
   '''',
   ''4. **"AA Sandbox Escape" Claims**:'']\<close>

text \<open>Lines 804 to 819 of \<^verbatim>\<open>src/questions.py\<close>.\<close>

definition vf_804_819 :: "string list" where
  \<open>vf_804_819 =
  [''   - '' @ cross_mark @ '' Invalid unless report demonstrates: '',
   ''     - Actual prototype pollution:  `Object.prototype.malicious = ... `'',
   ''     - Constructor injection: `{}. constructor.constructor('code')()`'',
   ''     - Access to Node.js globals: `require()`, `process`, `fs`, `__dirname`'',
   ''     - Eval usage: `eval()`, `Function()` constructor'',
   ''   - '' @ white_heavy_check_mark @ '' Valid if AA formula can execute arbitrary Node.js code on validator nodes'',
   '''',
   ''5. **"Non-Deterministic Execution" Claims**:'',
   ''   - '' @ cross_mark @ '' Invalid unless report shows usage in consensus-critical code: '',
   ''     - `Math.random()` in MC selection'',
   ''     - `Date.now()` in validation logic'',
   ''     - Floating-point comparisons causing different results on different CPUs'',
   ''     - Timestamp tie-breaking with undefined behavior'',
   ''   - '' @ white_heavy_check_mark @ '' Valid if different nodes reach different MC or validation decisions for same input'',
   '''',
   ''6. **"Main Chain Split" Claims**:'']\<close>

text \<open>Lines 820 to 835 of \<^verbatim>\<open>src/questions.py\<close>.\<close>

definition vf_820_835 :: "string list" where
  \<open>vf_820_835 =
  [''   - '' @ cross_mark @ '' Invalid unless report demonstrates: '',
   ''     - Specific non-deterministic logic in `main_chain.js:updateMainChainIndex()`'',
   ''     - Witness level calculation differences'',
   ''     - Last ball assignment differences'',
   ''     - Stability point disagreement'',
   ''   - '' @ white_heavy_check_mark @ '' Valid if nodes permanently diverge on MC structure requiring hard fork'',
   '''',
   ''7. **"Witness Incompatibility" Claims**:'',
   ''   - '' @ cross_mark @ '' Invalid if validation rejects incompatible witness lists'',
   ''   - '' @ white_heavy_check_mark @ '' Valid if unit with incompatible witnesses (sharing <1 witness with parents) is accepted, causing permanent partition'',
   '''',
   ''8. **"SQL Injection" Claims**:'',
   ''   - '' @ cross_mark @ '' Invalid if all queries use parameterized statements or proper escaping'',
   ''   - '' @ white_heavy_check_mark @ '' Valid if unit messages or addresses can inject SQL, corrupting database'',
   '''',
   ''9. **"Race Condition" Claims**:'']\<close>

text \<open>Lines 836 to 851 of \<^verbatim>\<open>src/questions.py\<close>.\<close>

definition vf_836_851 :: "string list" where
  \<open>vf_836_851 =
  [''   - '' @ cross_mark @ '' Invalid if mutex locks or database transactions prevent concurrent access'',
   ''   - '' @ white_heavy_check_mark @ '' Valid if concurrent operations can result in inconsistent state (e.g., double-spend, duplicate serials)'',
   '''',
   ''10. **"Asset Cap Bypass" Claims**:'',
   ''    - '' @ cross_mark @ '' Invalid if `divisible_asset.js` enforces `max_cap` on all issuance operations'',
   ''    - '' @ white_heavy_check_mark @ '' Valid if attacker can issue asset multiple times exceeding cap'',
   '''',
   ''#### **Step 3: CROSS-REFERENCE WITH TEST SUITE**'',
   '''',
   ''Obyte's test suite includes unit and integration tests in `test/` directory (out of scope but informative).  Ask: '',
   '''',
   ''1. **Existing Coverage**: Do current tests handle the scenario?  Check tests like: '',
   ''   - `test/validation.test.js` - unit validation edge cases'',
   ''   - `test/aa. test.js` - AA execution determinism'',
   ''   - `test/formula. test.js` - formula sandbox isolation'',
   ''   - `test/merkle.test.js` - DAG structure integrity'']\<close>

text \<open>Lines 852 to 867 of \<^verbatim>\<open>src/questions.py\<close>.\<close>

definition vf_852_867 :: "string list" where
  \<open>vf_852_867 =
  [''   - `test/string_utils.test.js` - input sanitization'',
   '''',
   ''2. **Test Gaps**: Is there an obvious gap that would allow the exploit? If scenario is untested, suggest adding test but do **not** assume vulnerability.'',
   '''',
   ''3. **Invariant Tests**: Would existing invariant checks catch the bug? Tests verify:'',
   ''   - Balance conservation across all units'',
   ''   - MC monotonicity (no MCI decreases along paths)'',
   ''   - Witness compatibility in all units'',
   ''   - Deterministic AA execution'',
   ''   - Double-spend prevention'',
   '''',
   ''4. **PoC Feasibility**: Can the report's PoC be implemented as a Node.js test using existing Obyte modules without modifying core code?'',
   '''',
   ''**Test Case Realism Check**:  PoCs must use realistic unit structures, valid parent references, proper signatures, and respect protocol constraints (max 15 parents, 12 witnesses, valid timestamps).'',
   '''',
   ''### **PHASE 3: IMPACT & EXPLOITABILITY VALIDATION**'']\<close>

text \<open>Lines 868 to 883 of \<^verbatim>\<open>src/questions.py\<close>.\<close>

definition vf_868_883 :: "string list" where
  \<open>vf_868_883 =
  ['''',
   ''#### **Impact Must Be CONCRETE and ALIGN WITH IMMUNEFI SCOPE**'',
   '''',
   ''**'' @ white_heavy_check_mark @ '' Valid CRITICAL Severity Impacts (per Immunefi Obyte scope):**'',
   '''',
   ''1. **Network Shutdown (Critical)**:'',
   ''   - Network unable to confirm new transactions for >24 hours'',
   ''   - All nodes halt or reject valid units'',
   ''   - Consensus deadlock preventing MC advancement'',
   ''   - Database corruption blocking unit storage'',
   ''   - Example: "Validation logic rejects all units with specific witness list, halting network"'',
   '''',
   ''2. **Permanent Chain Split Requiring Hard Fork (Critical)**:'',
   ''   - Network partitions into incompatible branches'',
   ''   - Different nodes reach different MC or stability points'',
   ''   - Witness incompatibility causing permanent divergence'']\<close>

text \<open>Lines 884 to 899 of \<^verbatim>\<open>src/questions.py\<close>.\<close>

definition vf_884_899 :: "string list" where
  \<open>vf_884_899 =
  [''   - Non-deterministic validation causing state disagreement'',
   ''   - Example: "Floating-point comparison in MC selection causes nodes to choose different chains"'',
   '''',
   ''3. **Direct Loss of Funds (Critical)**:'',
   ''   - Theft of bytes (native currency) from user addresses'',
   ''   - Theft of custom assets (divisible/indivisible) from users'',
   ''   - Unauthorized spending of outputs owned by others'',
   ''   - Double-spend allowing attacker to spend same output multiple times'',
   ''   - Example: "Race condition allows attacker to spend output in two units, stealing 10,000 bytes"'',
   '''',
   ''4. **Permanent Freezing of Funds Requiring Hard Fork (Critical)**:'',
   ''   - Funds locked with no transaction able to unlock them'',
   ''   - Address definition change bricking address (no valid signatures possible)'',
   ''   - AA state corruption preventing withdrawals'',
   ''   - Invalid unit structure making outputs unspendable'',
   ''   - Example: "Definition change to impossible-to-satisfy condition locks 100,000 bytes forever"'']\<close>

text \<open>Lines 900 to 915 of \<^verbatim>\<open>src/questions.py\<close>.\<close>

definition vf_900_915 :: "string list" where
  \<open>vf_900_915 =
  ['''',
   ''**'' @ white_heavy_check_mark @ '' Valid HIGH Severity Impacts:**'',
   '''',
   ''5. **Permanent Freezing of Funds (High)**:'',
   ''   - Same as Critical #4 above (Immunefi lists this in both Critical and High)'',
   '''',
   ''**'' @ white_heavy_check_mark @ '' Valid MEDIUM Severity Impacts:**'',
   '''',
   ''6. **Temporary Transaction Delay '' @ greater_than_or_equal_to @ ''1 Day (Medium)**:'',
   ''   - Units not confirmed within 24 hours due to processing delay'',
   ''   - DoS attack flooding network with valid units'',
   ''   - Expensive validation operations slowing acceptance'',
   ''   - Database query bottlenecks during catchup'',
   ''   - Example: "Attacker submits 100,000 units/second, overwhelming validation queue for 30 hours"'',
   '''',
   ''7. **Temporary Transaction Delay '' @ greater_than_or_equal_to @ ''1 Hour (Medium)**:'']\<close>

text \<open>Lines 916 to 931 of \<^verbatim>\<open>src/questions.py\<close>.\<close>

definition vf_916_931 :: "string list" where
  \<open>vf_916_931 =
  [''   - Units not confirmed within 1 hour due to processing delay'',
   ''   - Malicious units with maximum complexity causing slowdown'',
   ''   - Example: "Units with 15 parents each cause validation to take 5 minutes per unit, delaying confirmations"'',
   '''',
   ''8. **Unintended AA Behavior Without Direct Fund Risk (Medium)**:'',
   ''   - AA formula produces incorrect results but no funds lost'',
   ''   - Non-deterministic AA execution without consensus break'',
   ''   - Incorrect oracle data interpretation in AAs'',
   ''   - Example: "AA state variable reads return stale data due to race condition, affecting logic but not causing theft"'',
   '''',
   ''**'' @ cross_mark @ '' Invalid "Impacts":**'',
   '''',
   ''- User withdraws their own funds (normal protocol operation)'',
   ''- Attacker loses their own funds through self-draining (not an exploit)'',
   ''- Theoretical cryptographic weaknesses without practical exploit'',
   ''- General network risk (e.g., "if all witnesses go offline")'']\<close>

text \<open>Lines 932 to 947 of \<^verbatim>\<open>src/questions.py\<close>.\<close>

definition vf_932_947 :: "string list" where
  \<open>vf_932_947 =
  [''- "Could be problematic if..." statements without concrete exploit path'',
   ''- DoS affecting <1 hour with no fund theft'',
   ''- Minor fee overpayment or underpayment (<0.1% of unit value)'',
   ''- Precision loss <0.01% across reasonable transaction volumes'',
   '''',
   ''#### **Likelihood Reality Check**'',
   '''',
   ''Assess exploit feasibility: '',
   '''',
   ''1. **Attacker Profile**:'',
   ''   - Any user with Obyte address?  '' @ white_heavy_check_mark @ '' Likely'',
   ''   - Malicious peer in P2P network? '' @ white_heavy_check_mark @ '' Likely'',
   ''   - MEV bot front-running transactions? '' @ white_heavy_check_mark @ '' Possible'',
   ''   - AA developer deploying malicious AA? '' @ white_heavy_check_mark @ '' Possible'',
   ''   - Compromised oracle provider? '' @ cross_mark @ '' Unlikely (trusted role)'',
   ''   - 7+ of 12 witnesses colluding? '' @ cross_mark @ '' Impossible (trusted role)'']\<close>

text \<open>Lines 948 to 963 of \<^verbatim>\<open>src/questions.py\<close>.\<close>

definition vf_948_963 :: "string list" where
  \<open>vf_948_963 =
  ['''',
   ''2. **Preconditions**:'',
   ''   - Normal network operation? '' @ white_heavy_check_mark @ '' High likelihood'',
   ''   - High transaction volume? '' @ white_heavy_check_mark @ '' Possible during peak usage'',
   ''   - Specific unit structure (e.g., maximum parents)? '' @ white_heavy_check_mark @ '' Attacker-controlled'',
   ''   - Specific AA state (e.g., uninitialized variable)? '' @ white_heavy_check_mark @ '' Attacker can deploy AA'',
   ''   - Specific timing (e.g., during catchup)? '' @ white_heavy_check_mark @ '' Attacker can time submission'',
   ''   - Network partition or witness censorship? '' @ cross_mark @ '' Low likelihood'',
   '''',
   ''3. **Execution Complexity**:'',
   ''   - Single unit submission? '' @ white_heavy_check_mark @ '' Simple'',
   ''   - Multiple coordinated units? '' @ white_heavy_check_mark @ '' Moderate (attacker controls)'',
   ''   - Concurrent submission to multiple nodes? '' @ white_heavy_check_mark @ '' Moderate (requires network position)'',
   ''   - Complex AA formula with edge cases? '' @ white_heavy_check_mark @ '' Attacker can deploy'',
   ''   - Requires front-running or precise timing? '' @ warning_sign @ variation_selector_16 @ '' Higher complexity'',
   ''   - Requires cryptographic manipulation? '' @ cross_mark @ '' Impractical'']\<close>

text \<open>Lines 964 to 979 of \<^verbatim>\<open>src/questions.py\<close>.\<close>

definition vf_964_979 :: "string list" where
  \<open>vf_964_979 =
  ['''',
   ''4. **Economic Cost**:'',
   ''   - Unit fees (headers + payload)? '' @ white_heavy_check_mark @ '' Minimal (few dollars)'',
   ''   - Collateral lockup (e.g., for AA state)? '' @ white_heavy_check_mark @ '' Attacker-determined'',
   ''   - Gas costs for multiple transactions? '' @ white_heavy_check_mark @ '' Moderate'',
   ''   - Potential profit vs. cost?  '' @ white_heavy_check_mark @ '' Must be positive for valid exploit'',
   '''',
   ''5. **Combined Probability**:'',
   ''   - Multiply probabilities of all conditions'',
   ''   - If resulting likelihood <0.1% with no economic incentive '' @ rightwards_arrow @ '' Invalid'',
   ''   - If exploit is profitable and feasible '' @ rightwards_arrow @ '' Valid'',
   '''',
   ''### **PHASE 4: PROOF OF CONCEPT VALIDATION**'',
   '''',
   ''**A Valid PoC MUST:**'',
   '''']\<close>

text \<open>Lines 980 to 995 of \<^verbatim>\<open>src/questions.py\<close>.\<close>

definition vf_980_995 :: "string list" where
  \<open>vf_980_995 =
  [''1. **Be Implementable in Node.js/JavaScript**:'',
   ''   - Uses existing Obyte modules (`composer`, `network`, `validation`, etc.)'',
   ''   - Compiles and runs without syntax errors'',
   ''   - Does not require modifying core protocol files'',
   '''',
   ''2. **Use Realistic, Achievable Inputs**:'',
   ''   - Valid unit structures (proper JSON format, required fields)'',
   ''   - Realistic balances (not 2^256-1 bytes)'',
   ''   - Valid parent references (existing unit hashes)'',
   ''   - Proper witness lists (12 valid addresses)'',
   ''   - Correct signatures (matching authors)'',
   ''   - Reasonable timestamps (within '' @ plus_minus_sign @ ''15 minutes of parent timestamps)'',
   '''',
   ''3. **Show BEFORE '' @ rightwards_arrow @ '' ACTION '' @ rightwards_arrow @ '' AFTER**:'',
   ''   - **Before**: Display initial state (database records, balances, MC index, AA state)'',
   ''   - **Action**: Execute exploit transaction(s) with exact parameters'']\<close>

text \<open>Lines 996 to 1011 of \<^verbatim>\<open>src/questions.py\<close>.\<close>

definition vf_996_1011 :: "string list" where
  \<open>vf_996_1011 =
  [''   - **After**: Show resulting state violating invariant (double-spend, inflated balance, diverged MC)'',
   '''',
   ''4. **NOT Require Bypassing Security Checks**:'',
   ''   - Do not comment out validation logic'',
   ''   - Do not call internal functions directly'',
   ''   - Do not modify database schema or constraints'',
   ''   - Do not skip signature verification'',
   '''',
   ''5. **Actually Compile and Run**:'',
   ''   - Provide complete runnable script'',
   ''   - Include setup instructions (database initialization, test data)'',
   ''   - Show console output or logs proving the bug'',
   ''   - Include assertions that fail when exploit succeeds'',
   '''',
   ''**PoC Red Flags (INVALID):**'',
   '''']\<close>

text \<open>Lines 1012 to 1027 of \<^verbatim>\<open>src/questions.py\<close>.\<close>

definition vf_1012_1027 :: "string list" where
  \<open>vf_1012_1027 =
  [''- '' @ cross_mark @ '' "Attacker sets witness list to empty array" (validation rejects)'',
   ''- '' @ cross_mark @ '' "Call internal function `_updateMainChainIndex()` directly" (not exposed)'',
   ''- '' @ cross_mark @ '' "Submit unit with negative balance" (validation rejects)'',
   ''- '' @ cross_mark @ '' "Requires modifying `validation.js` to skip checks" (not allowed)'',
   ''- '' @ cross_mark @ '' "Unit with timestamp in year 2050" (unrealistic)'',
   ''- '' @ cross_mark @ '' Fails to run due to missing dependencies or syntax errors'',
   ''- '' @ cross_mark @ '' "Assume attacker has access to witness private keys" (trusted role)'',
   '''',
   ''### **PHASE 5: DIFFERENTIAL ANALYSIS**'',
   '''',
   ''Compare reported behavior with protocol design and similar systems:'',
   '''',
   ''1. **Is This Standard DAG Behavior?**:'',
   ''   - Units reference multiple parents '' @ rightwards_arrow @ '' Expected'',
   ''   - Witness-based consensus with stability threshold '' @ rightwards_arrow @ '' By design'',
   ''   - Last ball chain forming immutable history '' @ rightwards_arrow @ '' Intentional'']\<close>

text \<open>Lines 1028 to 1043 of \<^verbatim>\<open>src/questions.py\<close>.\<close>

definition vf_1028_1043 :: "string list" where
  \<open>vf_1028_1043 =
  [''   - MC index strictly increasing along paths '' @ rightwards_arrow @ '' Core invariant'',
   ''   - Do not treat design features as bugs'',
   '''',
   ''2. **Is The Behavior Intentional?**:'',
   ''   - Cross-check Obyte documentation (whitepaper, wiki, developer docs)'',
   ''   - Review protocol specification for witness voting, MC selection, stability'',
   ''   - Check if behavior is explicitly documented as expected'',
   '''',
   ''3. **Design vs. Bug Distinction**:'',
   ''   - Obyte deliberately uses DAG instead of linear blockchain'',
   ''   - Witness trust model is intentional (not a bug)'',
   ''   - AA determinism requirements are by design'',
   ''   - Balance conservation is fundamental invariant'',
   ''   - Only deviations from documented invariants are bugs'',
   '''',
   ''4. **System-Level Protections**:'']\<close>

text \<open>Lines 1044 to 1059 of \<^verbatim>\<open>src/questions.py\<close>.\<close>

definition vf_1044_1059 :: "string list" where
  \<open>vf_1044_1059 =
  [''   - Consider multi-layer defenses:'',
   ''     - Validation checks in `validation.js`'',
   ''     - Database constraints (unique, foreign keys)'',
   ''     - Mutex locks in `mutex.js`'',
   ''     - Transaction atomicity in `storage.js`'',
   ''   - A report ignoring these protections is likely invalid'',
   '''',
   ''### **FINAL DECISION MATRIX**'',
   '''',
   ''A claim is **VALID** only if **ALL** are true:'',
   '''',
   ''- [ ] Vulnerability is in one of the 77 in-scope files from `byteball/ocore`'',
   ''- [ ] Not in `test/` directory or other excluded components'',
   ''- [ ] No witness collusion or oracle compromise required'',
   ''- [ ] No cryptographic primitive breaks assumed'',
   ''- [ ] Not an accepted risk or intentional design feature'']\<close>

text \<open>Lines 1060 to 1075 of \<^verbatim>\<open>src/questions.py\<close>.\<close>

definition vf_1060_1075 :: "string list" where
  \<open>vf_1060_1075 =
  [''- [ ] Unprivileged attacker can execute via realistic unit submission or AA trigger'',
   ''- [ ] Complete execution path is explained with exact file names and line numbers'',
   ''- [ ] No hidden validation checks prevent the exploit'',
   ''- [ ] State change is unauthorized (theft, inflation, consensus break, fund freeze)'',
   ''- [ ] Impact meets Critical, High, or Medium severity per Immunefi Obyte scope: '',
   ''  - **Critical**: Network shutdown >24h, permanent chain split, direct fund loss, permanent fund freeze'',
   ''  - **High**:  Permanent fund freeze'',
   ''  - **Medium**: Temporary delay '' @ greater_than_or_equal_to @ ''1 hour, unintended AA behavior'',
   ''- [ ] PoC is realistic, runnable Node.js code without modifying protocol files'',
   ''- [ ] Exploit violates a core invariant: '',
   ''  - MC monotonicity'',
   ''  - Witness compatibility'',
   ''  - Stability irreversibility'',
   ''  - Last ball consistency'',
   ''  - Balance conservation'',
   ''  - Double-spend prevention'']\<close>

text \<open>Lines 1076 to 1091 of \<^verbatim>\<open>src/questions.py\<close>.\<close>

definition vf_1076_1091 :: "string list" where
  \<open>vf_1076_1091 =
  [''  - AA deterministic execution'',
   ''  - Signature binding'',
   ''  - Definition evaluation integrity'',
   ''- [ ] Behavior is not documented as standard (e.g., witness voting, fee calculations)'',
   ''- [ ] Not previously identified in audits or known issues'',
   '''',
   ''**If any checkbox is unchecked '' @ rightwards_arrow @ '' Output:** `#NoVulnerability found for this question. `'',
   '''',
   ''### **SPECIAL OBYTE VALIDATION RULES**'',
   '''',
   ''#### **1. "Main Chain Split" Claims**'',
   ''- '' @ white_heavy_check_mark @ '' Valid ONLY if: '',
   ''  - Non-deterministic logic in `main_chain.js` (floating-point, timestamp ties)'',
   ''  - Different nodes select different MC indices for same unit'',
   ''  - Witness level calculation differs across nodes'',
   ''  - Last ball assignment diverges'']\<close>

text \<open>Lines 1092 to 1107 of \<^verbatim>\<open>src/questions.py\<close>.\<close>

definition vf_1092_1107 :: "string list" where
  \<open>vf_1092_1107 =
  [''  - Demonstrated with concrete unit structures causing split'',
   ''- '' @ cross_mark @ '' Invalid if: '',
   ''  - Split requires witness collusion'',
   ''  - Claim assumes different validation rules on different nodes'',
   ''  - Split is temporary and self-correcting'',
   '''',
   ''#### **2. "Double-Spend" Claims**'',
   ''- '' @ white_heavy_check_mark @ '' Valid ONLY if:'',
   ''  - Two units spending same output both pass `validation.js:validate()`'',
   ''  - Database unique constraint on spent outputs is missing or bypassable'',
   ''  - Race condition between validation and storage allows concurrent spends'',
   ''  - Demonstrated with timing diagrams showing race window'',
   ''- '' @ cross_mark @ '' Invalid if:'',
   ''  - Database transaction isolation prevents race'',
   ''  - One unit is rejected before commit'',
   ''  - Requires attacker to control multiple nodes (unrealistic)'']\<close>

text \<open>Lines 1108 to 1123 of \<^verbatim>\<open>src/questions.py\<close>.\<close>

definition vf_1108_1123 :: "string list" where
  \<open>vf_1108_1123 =
  ['''',
   ''#### **3. "AA Sandbox Escape" Claims**'',
   ''- '' @ white_heavy_check_mark @ '' Valid ONLY if: '',
   ''  - Attacker formula accesses Node.js globals: `require('fs')`, `process.exit()`, etc.'',
   ''  - Prototype pollution affects validator node:  `Object.prototype.admin = true`'',
   ''  - Constructor injection executes arbitrary code:  `{}.constructor.constructor('malicious')()`'',
   ''  - Eval usage allows code injection in `formula/evaluation.js`'',
   ''  - Demonstrated with actual malicious formula code'',
   ''- '' @ cross_mark @ '' Invalid if:'',
   ''  - Formula evaluation is properly sandboxed (VM2, isolated-vm)'',
   ''  - Globals are undefined or inaccessible'',
   ''  - Prototype is frozen or protected'',
   '''',
   ''#### **4. "Balance Overflow" Claims**'',
   ''- '' @ white_heavy_check_mark @ '' Valid ONLY if:'',
   ''  - JavaScript number precision loss causes incorrect balance'']\<close>

text \<open>Lines 1124 to 1139 of \<^verbatim>\<open>src/questions.py\<close>.\<close>

definition vf_1124_1139 :: "string list" where
  \<open>vf_1124_1139 =
  [''  - Integer overflow in asset amount calculations'',
   ''  - Negative balances pass validation'',
   ''  - Attacker can mint unlimited assets'',
   ''  - Demonstrated with specific arithmetic causing overflow'',
   ''- '' @ cross_mark @ '' Invalid if:'',
   ''  - Big integer libraries handle large numbers correctly'',
   ''  - Validation rejects negative or overflowing values'',
   ''  - Overflow would require impossible input values'',
   '''',
   ''#### **5. "Witness Incompatibility" Claims**'',
   ''- '' @ white_heavy_check_mark @ '' Valid ONLY if:'',
   ''  - Unit with witness list sharing <1 witness with parents is accepted'',
   ''  - Causes permanent partition for all descendants'',
   ''  - Validation in `validation.js` misses incompatibility check'',
   ''  - Demonstrated with specific witness list configurations'',
   ''- '' @ cross_mark @ '' Invalid if:'']\<close>

text \<open>Lines 1140 to 1155 of \<^verbatim>\<open>src/questions.py\<close>.\<close>

definition vf_1140_1155 :: "string list" where
  \<open>vf_1140_1155 =
  [''  - Validation rejects incompatible witness lists'',
   ''  - Protocol enforces '' @ greater_than_or_equal_to @ ''1 shared witness requirement'',
   '''',
   ''#### **6. "Asset Cap Bypass" Claims**'',
   ''- '' @ white_heavy_check_mark @ '' Valid ONLY if:'',
   ''  - Divisible asset issued multiple times exceeding `max_cap`'',
   ''  - `divisible_asset.js` fails to track total issued amount'',
   ''  - Attacker can mint unlimited tokens'',
   ''  - Demonstrated with multiple issuance transactions'',
   ''- '' @ cross_mark @ '' Invalid if:'',
   ''  - Cap enforcement checks total supply before issuance'',
   ''  - Database constraints prevent over-issuance'',
   '''',
   ''#### **7. "Indivisible Serial Collision" Claims**'',
   ''- '' @ white_heavy_check_mark @ '' Valid ONLY if:'',
   ''  - Same serial number issued twice for indivisible asset'']\<close>

text \<open>Lines 1156 to 1171 of \<^verbatim>\<open>src/questions.py\<close>.\<close>

definition vf_1156_1171 :: "string list" where
  \<open>vf_1156_1171 =
  [''  - `indivisible_asset.js` lacks uniqueness check'',
   ''  - Database allows duplicate (asset, serial) entries'',
   ''  - Demonstrated with two units issuing same serial'',
   ''- '' @ cross_mark @ '' Invalid if: '',
   ''  - Database unique constraint prevents duplicates'',
   ''  - Validation rejects units with duplicate serials'',
   '''',
   ''#### **8. "SQL Injection" Claims**'',
   ''- '' @ white_heavy_check_mark @ '' Valid ONLY if: '',
   ''  - Unit message or address contains SQL injection payload'',
   ''  - Query in `storage.js`, `sqlite_pool.js`, or `mysql_pool.js` uses string concatenation'',
   ''  - Attacker can corrupt database or extract data'',
   ''  - Demonstrated with actual injection payload and query'',
   ''- '' @ cross_mark @ '' Invalid if:'',
   ''  - All queries use parameterized statements'',
   ''  - Input sanitization prevents injection'']\<close>

text \<open>Lines 1172 to 1187 of \<^verbatim>\<open>src/questions.py\<close>.\<close>

definition vf_1172_1187 :: "string list" where
  \<open>vf_1172_1187 =
  ['''',
   ''#### **9. "Signature Malleability" Claims**'',
   ''- '' @ white_heavy_check_mark @ '' Valid ONLY if: '',
   ''  - Attacker modifies signature bytes (e.g., flip ECDSA s-value)'',
   ''  - Modified signature passes verification in `signature.js`'',
   ''  - Allows replay or unauthorized spending'',
   ''  - Demonstrated with two valid signatures for same message'',
   ''- '' @ cross_mark @ '' Invalid if:'',
   ''  - Signature verification enforces canonical s-value'',
   ''  - Unit hash changes with signature, preventing replay'',
   '''',
   ''#### **10. "Definition Change Attack" Claims**'',
   ''- '' @ white_heavy_check_mark @ '' Valid ONLY if:'',
   ''  - Attacker submits `definition_chg` message for victim's address'',
   ''  - New definition gives attacker control (no victim signatures required)'',
   ''  - `definition. js` fails to validate definition ownership'']\<close>

text \<open>Lines 1188 to 1203 of \<^verbatim>\<open>src/questions.py\<close>.\<close>

definition vf_1188_1203 :: "string list" where
  \<open>vf_1188_1203 =
  [''  - Demonstrated with unauthorized definition change'',
   ''- '' @ cross_mark @ '' Invalid if:'',
   ''  - Definition change requires signatures from old definition'',
   ''  - Validation rejects unauthorized definition changes'',
   '''',
   ''### **OUTPUT REQUIREMENTS**'',
   '''',
   ''**If VALID (extremely rare'' @ em_dash @ ''be ruthlessly sure):**'',
   '''',
   ''Produce a full audit report with these sections:'',
   '''',
   ''#### **Title**'',
   ''Precise vulnerability name (e.g., "Race Condition in validation.js Allows Double-Spend Attack")'',
   '''',
   ''#### **Summary**'',
   ''Two to three sentences summarizing: '']\<close>

text \<open>Lines 1204 to 1219 of \<^verbatim>\<open>src/questions.py\<close>.\<close>

definition vf_1204_1219 :: "string list" where
  \<open>vf_1204_1219 =
  [''- What goes wrong'',
   ''- Where in the codebase (file and function)'',
   ''- Why it's critical (impact category)'',
   '''',
   ''#### **Impact**'',
   ''**Severity**:  [Critical / High / Medium]'',
   ''**Category**: [Network Shutdown / Chain Split / Direct Fund Loss / Permanent Fund Freeze / Temporary Transaction Delay / Unintended AA Behavior]'',
   '''',
   ''Describe: '',
   ''- Concrete financial impact or network disruption'',
   ''- Affected parties (all users, specific addresses, AA users, nodes)'',
   ''- Quantify potential loss (amount of bytes/assets, downtime duration)'',
   '''',
   ''#### **Finding Description**'',
   '''',
   ''**Location**: `byteball/ocore/[filename]. js:[line_start]-[line_end]`, function `[functionName]()`'']\<close>

text \<open>Lines 1220 to 1235 of \<^verbatim>\<open>src/questions.py\<close>.\<close>

definition vf_1220_1235 :: "string list" where
  \<open>vf_1220_1235 =
  ['''',
   ''**Intended Logic**: Expected behavior per protocol spec and invariants'',
   '''',
   ''**Actual Logic**:  Describe the flawed logic with exact code quotes'',
   '''',
   ''**Code Evidence**:'',
   ''```javascript'',
   ''// Quote relevant code from the vulnerable file'',
   ''// Include 5-10 lines of context'',
   ''// Show the specific line(s) with the bug'',
   ''```'',
   '''',
   ''**Exploitation Path**:'',
   ''1. **Preconditions**: Initial state (e.g., "Attacker has address with 100 bytes balance")'',
   ''2. **Step 1**: Specific action (e.g., "Attacker submits unit U1 spending output O1")'',
   ''   - Unit structure (parents, witnesses, messages, signatures)'']\<close>

text \<open>Lines 1236 to 1251 of \<^verbatim>\<open>src/questions.py\<close>.\<close>

definition vf_1236_1251 :: "string list" where
  \<open>vf_1236_1251 =
  [''   - Code path:  `composer.js:composeJoint()` '' @ rightwards_arrow @ '' `validation.js:validate()` '' @ rightwards_arrow @ '' `storage.js:saveJoint()`'',
   ''3. **Step 2**: State change (e.g., "Output O1 marked as spent in database")'',
   ''   - Database state:  `outputs` table, `unit_authors` table'',
   ''   - Node observations: Node A accepts U1, Node B processing'',
   ''4. **Step 3**: Follow-up action (e.g., "Attacker immediately submits unit U2 to different peer also spending O1")'',
   ''   - Timing: Submitted during validation of U1, before database commit'',
   ''5. **Step 4**: Unauthorized outcome (e.g., "Both U1 and U2 accepted, O1 double-spent, attacker receives 200 bytes from 100-byte output")'',
   ''   - Invariant broken: Balance conservation violated, double-spend prevention failed'',
   '''',
   ''**Security Property Broken**:  [Which of the 24 Obyte invariants is violated]'',
   ''- Example: "Invariant #6:  Double-Spend Prevention - Each output can be spent at most once"'',
   '''',
   ''**Root Cause Analysis**:'',
   ''Deep dive into why the bug exists:'',
   ''- Missing database unique constraint on spent outputs'',
   ''- Race condition between validation and storage commit'']\<close>

text \<open>Lines 1252 to 1267 of \<^verbatim>\<open>src/questions.py\<close>.\<close>

definition vf_1252_1267 :: "string list" where
  \<open>vf_1252_1267 =
  [''- Non-atomic read-check-write sequence'',
   ''- No mutex lock protecting concurrent access'',
   '''',
   ''#### **Impact Explanation**'',
   '''',
   ''**Affected Assets**: [bytes (native currency), custom divisible/indivisible assets, AA state, user balances]'',
   '''',
   ''**Damage Severity**:'',
   ''- **Quantitative**: "Attacker can double-spend arbitrary amounts limited only by their initial balance.  Network-wide impact:  all unconfirmed outputs vulnerable."'',
   ''- **Qualitative**:  "Complete loss of transaction integrity. Users cannot trust pending transactions."'',
   '''',
   ''**User Impact**:'',
   ''- **Who**: All users with unconfirmed transactions, recipients of double-spent outputs'',
   ''- **Conditions**: Exploitable during normal operation, worse under high network load'',
   ''- **Recovery**: Requires hard fork to invalidate double-spent units and restore correct balances'',
   '''']\<close>

text \<open>Lines 1268 to 1283 of \<^verbatim>\<open>src/questions.py\<close>.\<close>

definition vf_1268_1283 :: "string list" where
  \<open>vf_1268_1283 =
  [''**Systemic Risk**:'',
   ''- Enables further attacks: Can be automated with scripts'',
   ''- Cascading effects: Double-spent outputs in subsequent transactions propagate corruption'',
   ''- Detection difficulty: Requires forensic analysis of entire DAG'',
   '''',
   ''#### **Likelihood Explanation**'',
   '''',
   ''**Attacker Profile**:'',
   ''- **Identity**: Any user with Obyte address and ability to connect to multiple peers'',
   ''- **Resources Required**: Minimal capital (100 bytes for example), ability to submit units to 2+ nodes simultaneously'',
   ''- **Technical Skill**: Medium (requires understanding of unit structure and network protocol, ability to script concurrent submissions)'',
   '''',
   ''**Preconditions**:'',
   ''- **Network State**: Normal operation or high transaction volume (increases success rate)'',
   ''- **Attacker State**: Needs unspent output of any amount'',
   ''- **Timing**: Requires submitting two units during narrow race window (estimated 50-200ms)'']\<close>

text \<open>Lines 1284 to 1299 of \<^verbatim>\<open>src/questions.py\<close>.\<close>

definition vf_1284_1299 :: "string list" where
  \<open>vf_1284_1299 =
  ['''',
   ''**Execution Complexity**:'',
   ''- **Transaction Count**: Two units spending same output'',
   ''- **Coordination**:  Requires submitting to different peers simultaneously (achievable with multi-connection script)'',
   ''- **Detection Risk**: Low initially (appears as normal transaction conflict), high after forensic analysis'',
   '''',
   ''**Frequency**:'',
   ''- **Repeatability**: Unlimited (attacker can repeat with any output they own)'',
   ''- **Scale**: Per-output (each owned output can be double-spent once)'',
   '''',
   ''**Overall Assessment**:  High likelihood (race window exists, low technical barrier, profitable)'',
   '''',
   ''#### **Recommendation**'',
   '''',
   ''**Immediate Mitigation**:'',
   ''Add database-level unique constraint on spent outputs to prevent concurrent spends: '']\<close>

text \<open>Lines 1300 to 1315 of \<^verbatim>\<open>src/questions.py\<close>.\<close>

definition vf_1300_1315 :: "string list" where
  \<open>vf_1300_1315 =
  [''```sql'',
   ''-- In sqlite_migrations. js'',
   ''ALTER TABLE outputs ADD CONSTRAINT unique_spend UNIQUE (unit, message_index, output_index);'',
   ''```'',
   '''',
   ''**Permanent Fix**:'',
   ''Implement mutex lock around validation-and-storage sequence: '',
   '''',
   ''```javascript'',
   ''// File: byteball/ocore/validation.js'',
   ''// Function: validate()'',
   '''',
   ''const mutex = require('./mutex. js');'',
   '''',
   ''async function validate(unit) {..'',
   ''}'']\<close>

text \<open>Lines 1316 to 1331 of \<^verbatim>\<open>src/questions.py\<close>.\<close>

definition vf_1316_1331 :: "string list" where
  \<open>vf_1316_1331 =
  [''```'',
   '''',
   ''  **Additional Measures**:'',
   ''- Add test case: `test/double_spend_race.test.js` verifying concurrent spends are rejected'',
   ''                                                                                  - Add monitoring: Alert when output is referenced in multiple pending units'',
   ''                                                                                                                                                        - Database migration: Apply unique constraint to existing database (check for historical double-spends first)'',
   '''',
   ''**Validation**:'',
   ''- [ ] Fix prevents concurrent spends of same output'',
   ''                                             - [ ] No new vulnerabilities introduced (mutex deadlock, performance)'',
   ''- [ ] Backward compatible (existing valid units still process correctly)'',
   ''- [ ] Performance impact acceptable (mutex lock overhead <10ms per unit)'',
   '''',
   ''#### **Proof of Concept**'',
   ''Note the proof of concept has to be a complete test using their test setup that must run so pls u must always a very'',
   ''good test function and dont go out of concept,'']\<close>

text \<open>Lines 1332 to 1347 of \<^verbatim>\<open>src/questions.py\<close>.\<close>

definition vf_1332_1347 :: "string list" where
  \<open>vf_1332_1347 =
  [''---'',
   '''',
   ''**If INVALID (default when any condition fails):**'',
   '''',
   ''Output exactly:'',
   '''',
   ''```'',
   ''#NoVulnerability found for this question. '',
   ''```'',
   '''',
   ''### **MENTAL CHECKLIST BEFORE FINAL DECISION**'',
   '''',
   ''Ask yourself:'',
   '''',
   ''1. '' @ white_heavy_check_mark @ '' Would this finding withstand scrutiny from Obyte core developers and Immunefi judges?'',
   ''2. '' @ white_heavy_check_mark @ '' Can I defend this with exact line numbers and code quotes from the 77 in-scope files?'']\<close>

text \<open>Lines 1348 to 1363 of \<^verbatim>\<open>src/questions.py\<close>.\<close>

definition vf_1348_1363 :: "string list" where
  \<open>vf_1348_1363 =
  [''3. '' @ white_heavy_check_mark @ '' Is there any other explanation (intentional design, witness trust model, database protection) for the behavior?'',
   ''4. '' @ white_heavy_check_mark @ '' Did I check all validation layers (validation.js, storage.js, database constraints) for hidden checks?'',
   ''5. '' @ white_heavy_check_mark @ '' Am I confusing intentional DAG architecture (witness voting, multiple parents) with a bug?'',
   ''6. '' @ white_heavy_check_mark @ '' Did I verify this is not an accepted risk (witness collusion, oracle trust, crypto primitives)?'',
   ''7. '' @ white_heavy_check_mark @ '' Did I check protocol documentation and previous audits for similar findings marked as false positive?'',
   ''8. '' @ white_heavy_check_mark @ '' Can I actually implement the PoC in Node.js without modifying source files?'',
   ''9. '' @ white_heavy_check_mark @ '' Does the impact truly meet Critical/High/Medium per Immunefi Obyte scope?'',
   ''10. '' @ white_heavy_check_mark @ '' Would an Immunefi judge reading this say "yes, clear valid Critical/High/Medium"?'',
   '''',
   ''**Remember**: False positives harm credibility more than missed findings.  Assume claims are invalid until overwhelming evidence proves otherwise.'',
   '''',
   ''**Now perform STRICT validation of the claim above.**'',
   '''',
   ''**Output ONLY:**'',
   ''- A full audit report (if genuinely valid after passing **all** checks above) following the specified format'',
   ''                                                                                                      - `#NoVulnerability found for this question.` (if **any** check fails)'']\<close>

text \<open>Lines 1364 to 1365 of \<^verbatim>\<open>src/questions.py\<close>.\<close>

definition vf_1364_1365 :: "string list" where
  \<open>vf_1364_1365 =
  ['''',
   ''                                                                                                      **Be ruthlessly skeptical.  The bar for validity is EXTREMELY high.**'']\<close>

text \<open>The rows of the f-string of \<^verbatim>\<open>validation_format\<close> (lines 669 to 1365), the
  replacement field \<^verbatim>\<open>{report}\<close> filled in.\<close>

definition validation_format_rows :: "string \<Rightarrow> string list" where
  \<open>validation_format_rows report =
    vf_669_674 @
    [report] @
    vf_676_691 @
    vf_692_707 @
    vf_708_723 @
    vf_724_739 @
    vf_740_755 @
    vf_756_771 @
    vf_772_787 @
    vf_788_803 @
    vf_804_819 @
    vf_820_835 @
    vf_836_851 @
    vf_852_867 @
    vf_868_883 @
    vf_884_899 @
    vf_900_915 @
    vf_916_931 @
    vf_932_947 @
    vf_948_963 @
    vf_964_979 @
    vf_980_995 @
    vf_996_1011 @
    vf_1012_1027 @
    vf_1028_1043 @
    vf_1044_1059 @
    vf_1060_1075 @
    vf_1076_1091 @
    vf_1092_1107 @
    vf_1108_1123 @
    vf_1124_1139 @
    vf_1140_1155 @
    vf_1156_1171 @
    vf_1172_1187 @
    vf_1188_1203 @
    vf_1204_1219 @
    vf_1220_1235 @
    vf_1236_1251 @
    vf_1252_1267 @
    vf_1268_1283 @
    vf_1284_1299 @
    vf_1300_1315 @
    vf_1316_1331 @
    vf_1332_1347 @
    vf_1348_1363 @
    vf_1364_1365\<close>

definition validation_format :: "string \<Rightarrow> string" where
  "validation_format report = text_of_rows (validation_format_rows report)"

section \<open>The question-generation prompt\<close>

text \<open>Lines 1381 to 1391 of \<^verbatim>\<open>src/questions.py\<close>.\<close>

definition qg_1381_1391 :: "string list" where
  \<open>qg_1381_1391 =
  ['''',
   ''# **Generate 150+ Targeted Security Audit Questions for Obyte (Byteball) Protocol**'',
   '''',
   ''## **Context**'',
   '''',
   ''The target project is **Obyte (formerly Byteball)**, a Directed Acyclic Graph (DAG)-based distributed ledger protocol that uses a unique consensus mechanism without traditional blockchain mining. Unlike linear blockchains, Obyte employs a **DAG structure** where each new unit references multiple parent units, forming a graph of transactions.  The protocol features **witnesses** (trusted nodes that post regular heartbeat transactions), **main chain selection** (determining the canonical ordering of units), **Autonomous Agents (AAs)** (smart contracts executed in JavaScript-like formulas), **multi-signature addresses**, **private payments**, and **oracles/data feeds**. '',
   '''',
   ''Obyte's architecture includes critical components for unit validation, storage, network synchronization, DAG graph operations, witness proof generation, transaction composition, and formula evaluation for AAs. The protocol maintains consensus through witness voting and main chain advancement, while supporting complex features like indivisible/divisible assets, arbiter contracts, payment channels, and attestation services.'',
   '''',
   ''## **Scope**'',
   '''']\<close>

text \<open>Lines 1393 to 1393 of \<^verbatim>\<open>src/questions.py\<close>.\<close>

definition qg_1393_1393 :: "string list" where
  \<open>qg_1393_1393 =
  ['''']\<close>

text \<open>Lines 1395 to 1410 of \<^verbatim>\<open>src/questions.py\<close>.\<close>

definition qg_1395_1410 :: "string list" where
  \<open>qg_1395_1410 =
  ['''',
   ''If you cannot reach 150 questions from this file alone, generate as many high-quality questions as the file's complexity allows (minimum target:  50-100 questions for large critical files, 20-50 for smaller files).'',
   '''',
   ''**Full Context - 77 In-Scope Files (for reference only):**'',
   '''',
   ''### **Core Protocol Files (Root Directory) - 67 files**'',
   '''',
   ''```python'',
   ''core_files = ['',
   ''    "byteball/ocore/aa_addresses.js",           # AA address derivation'',
   ''    "byteball/ocore/aa_composer.js",            # 71KB - AA transaction composition'',
   ''    "byteball/ocore/aa_validation.js",          # 28KB - AA validation logic'',
   ''    "byteball/ocore/arbiter_contract.js",       # Arbiter contract execution'',
   ''    "byteball/ocore/arbiters.js",               # Arbiter management'',
   ''    "byteball/ocore/archiving.js",              # Historical data archiving'',
   ''    "byteball/ocore/balances.js",               # Balance calculations'']\<close>

text \<open>Lines 1411 to 1426 of \<^verbatim>\<open>src/questions.py\<close>.\<close>

definition qg_1411_1426 :: "string list" where
  \<open>qg_1411_1426 =
  [''    "byteball/ocore/bots.js",                   # Bot interfaces'',
   ''    "byteball/ocore/breadcrumbs.js",            # Transaction breadcrumbs'',
   ''    "byteball/ocore/catchup.js",                # Network sync catchup logic'',
   ''    "byteball/ocore/chash.js",                  # Cryptographic hashing (chash160)'',
   ''    "byteball/ocore/chat_storage.js",           # Chat message storage'',
   ''    "byteball/ocore/check_daemon.js",           # Daemon health monitoring'',
   ''    "byteball/ocore/composer.js",               # 38KB - Transaction composition'',
   ''    "byteball/ocore/conf.js",                   # Configuration management'',
   ''    "byteball/ocore/constants.js",              # Protocol constants'',
   ''    "byteball/ocore/data_feeds.js",             # Oracle data feed handling'',
   ''    "byteball/ocore/db.js",                     # Database interface abstraction'',
   ''    "byteball/ocore/definition.js",             # 53KB - Address definition logic'',
   ''    "byteball/ocore/desktop_app.js",            # Desktop app utilities'',
   ''    "byteball/ocore/device.js",                 # 38KB - Device pairing & messaging'',
   ''    "byteball/ocore/divisible_asset.js",        # Divisible asset operations'',
   ''    "byteball/ocore/enforce_singleton.js",      # Singleton pattern enforcement'']\<close>

text \<open>Lines 1427 to 1442 of \<^verbatim>\<open>src/questions.py\<close>.\<close>

definition qg_1427_1442 :: "string list" where
  \<open>qg_1427_1442 =
  [''    "byteball/ocore/event_bus.js",              # Event bus architecture'',
   ''    "byteball/ocore/graph.js",                  # DAG graph operations'',
   ''    "byteball/ocore/headers_commission.js",     # Header commission calculations'',
   ''    "byteball/ocore/indivisible_asset.js",      # 48KB - Indivisible asset logic'',
   ''    "byteball/ocore/initial_votes.js",          # Initial witness voting'',
   ''    "byteball/ocore/inputs.js",                 # Input validation & processing'',
   ''    "byteball/ocore/joint_storage.js",          # Joint (unit) storage operations'',
   ''    "byteball/ocore/kvstore.js",                # Key-value store interface'',
   ''    "byteball/ocore/light. js",                  # 34KB - Light client functionality'',
   ''    "byteball/ocore/light_wallet.js",           # Light wallet operations'',
   ''    "byteball/ocore/mail.js",                   # Email notification system'',
   ''    "byteball/ocore/main_chain.js",             # 77KB - CRITICAL - Main chain selection'',
   ''    "byteball/ocore/mc_outputs.js",             # Main chain output tracking'',
   ''    "byteball/ocore/merkle. js",                 # Merkle proof generation'',
   ''    "byteball/ocore/migrate_to_kv.js",          # Database migration utilities'',
   ''    "byteball/ocore/mutex.js",                  # Mutex lock implementation'']\<close>

text \<open>Lines 1443 to 1458 of \<^verbatim>\<open>src/questions.py\<close>.\<close>

definition qg_1443_1458 :: "string list" where
  \<open>qg_1443_1458 =
  [''    "byteball/ocore/my_witnesses.js",           # Local witness list management'',
   ''    "byteball/ocore/mysql_pool.js",             # MySQL connection pooling'',
   ''    "byteball/ocore/network.js",                # 156KB - CRITICAL - P2P network protocol'',
   ''    "byteball/ocore/object_hash.js",            # Object hashing (unit hash calc)'',
   ''    "byteball/ocore/object_length.js",          # Object size calculations'',
   ''    "byteball/ocore/paid_witnessing.js",        # Witness reward distribution'',
   ''    "byteball/ocore/parent_composer.js",        # 30KB - Parent unit selection'',
   ''    "byteball/ocore/private_payment.js",        # Private payment handling'',
   ''    "byteball/ocore/private_profile.js",        # Private profile management'',
   ''    "byteball/ocore/profiler.js",               # Performance profiling'',
   ''    "byteball/ocore/proof_chain.js",            # Proof chain construction'',
   ''    "byteball/ocore/prosaic_contract.js",       # Prosaic contract execution'',
   ''    "byteball/ocore/signature. js",              # Signature verification (ECDSA)'',
   ''    "byteball/ocore/signed_message.js",         # Signed message validation'',
   ''    "byteball/ocore/sqlite_migrations.js",      # 32KB - SQLite schema migrations'',
   ''    "byteball/ocore/sqlite_pool.js",            # SQLite connection management'']\<close>

text \<open>Lines 1459 to 1474 of \<^verbatim>\<open>src/questions.py\<close>.\<close>

definition qg_1459_1474 :: "string list" where
  \<open>qg_1459_1474 =
  [''    "byteball/ocore/storage.js",                # 98KB - CRITICAL - Storage layer'',
   ''    "byteball/ocore/string_utils.js",           # String utility functions'',
   ''    "byteball/ocore/uri.js",                    # URI parsing (obyte: // scheme)'',
   ''    "byteball/ocore/validation.js",             # 116KB - CRITICAL - Unit validation'',
   ''    "byteball/ocore/validation_utils.js",       # Validation helper functions'',
   ''    "byteball/ocore/wallet.js",                 # 122KB - CRITICAL - Wallet operations'',
   ''    "byteball/ocore/wallet_defined_by_addresses.js",  # 27KB - Multi-sig wallet logic'',
   ''    "byteball/ocore/wallet_defined_by_keys.js", # 35KB - Key-based wallet logic'',
   ''    "byteball/ocore/wallet_general.js",         # General wallet utilities'',
   ''    "byteball/ocore/witness_proof.js",          # Witness proof generation'',
   ''    "byteball/ocore/writer.js"                  # 34KB - Unit writing to DAG'',
   '']'',
   ''```'',
   '''',
   ''### **Formula Directory (AA Smart Contract Engine) - 5 files**'',
   '''']\<close>

text \<open>Lines 1475 to 1490 of \<^verbatim>\<open>src/questions.py\<close>.\<close>

definition qg_1475_1490 :: "string list" where
  \<open>qg_1475_1490 =
  [''```python'',
   ''formula_files = ['',
   ''    "byteball/ocore/formula/common.js",         # Common formula utilities'',
   ''    "byteball/ocore/formula/evaluation.js",     # 106KB - CRITICAL - AA formula evaluation'',
   ''    "byteball/ocore/formula/validation.js",     # 46KB - Formula syntax validation'',
   ''    "byteball/ocore/formula/parse_ojson.js",    # OJSON parser for AA definitions'',
   ''    "byteball/ocore/formula/index.js"           # Formula module entry point'',
   '']'',
   ''```'',
   '''',
   ''### **Tools Directory (Utility Scripts) - 6 files**'',
   '''',
   ''```python'',
   ''tools_files = ['',
   ''    "byteball/ocore/tools/check_stability.js",          # Stability verification'',
   ''    "byteball/ocore/tools/replace_ops.js",              # Operation replacement'']\<close>

text \<open>Lines 1491 to 1497 of \<^verbatim>\<open>src/questions.py\<close>.\<close>

definition qg_1491_1497 :: "string list" where
  \<open>qg_1491_1497 =
  [''    "byteball/ocore/tools/supply. js",                   # Supply calculations'',
   ''    "byteball/ocore/tools/update_stability.js",         # Stability updates'',
   ''    "byteball/ocore/tools/validate_aa_definitions.js",  # AA definition validator'',
   ''    "byteball/ocore/tools/viewkv.js"                    # KV store viewer'',
   '']'',
   ''```'',
   '''']\<close>

text \<open>Lines 1499 to 1514 of \<^verbatim>\<open>src/questions.py\<close>.\<close>

definition qg_1499_1514 :: "string list" where
  \<open>qg_1499_1514 =
  ['''',
   ''---'',
   '''',
   ''## **Obyte Protocol Architecture & Layers**'',
   '''',
   ''### **1. DAG & Unit Structure Layer** (`validation.js`, `storage.js`, `writer.js`, `graph.js`, `object_hash.js`)'',
   '''',
   ''- **DAG Architecture**: Units (transactions) reference multiple parent units, forming a directed acyclic graph'',
   ''- **Unit Composition**: Each unit contains messages (payments, data, AA triggers, definitions), authors, parent units, witnesses, and signatures'',
   ''- **Unit Hashing**: Deterministic hashing using `object_hash.js` (JSON canonicalization + SHA256) to generate unit hash'',
   ''- **Storage**:  Units stored in SQLite/MySQL with relational tables (units, messages, inputs, outputs, witnesses)'',
   ''- **Graph Operations**: Parent selection, best parent identification, DAG traversal, stability point determination'',
   '''',
   ''### **2. Consensus & Main Chain Layer** (`main_chain.js`, `witness_proof.js`, `initial_votes.js`, `my_witnesses.js`)'',
   '''',
   ''- **Witness List**:  Each unit declares 12 witnesses (trusted nodes); compatibility requires '' @ greater_than_or_equal_to @ '' 1 shared witness'']\<close>

text \<open>Lines 1515 to 1530 of \<^verbatim>\<open>src/questions.py\<close>.\<close>

definition qg_1515_1530 :: "string list" where
  \<open>qg_1515_1530 =
  [''- **Witness Level (WL)**: Minimum level of witness-authored units referenced by a unit'',
   ''- **Main Chain (MC)**: Canonical chain of units determined by witness voting; each unit has an MC index (MCI)'',
   ''- **Stability Point**: Units become stable when witnessed by majority (7+ of 12) witnesses at higher levels'',
   ''- **Last Ball**: Hash chain of stable units forming immutable history'',
   ''- **Witness Proofs**: Compact proofs demonstrating unit stability for light clients'',
   '''',
   ''### **3. Transaction & Composition Layer** (`composer.js`, `parent_composer.js`, `inputs.js`, `wallet.js`)'',
   '''',
   ''- **Transaction Composition**:  Selecting inputs, calculating fees, change outputs, and parent units'',
   ''- **Input Selection**: Choosing unspent outputs from addresses with sufficient balance'',
   ''- **Fee Calculation**: Fees based on unit size (headers + payload bytes)'',
   ''- **Parent Selection**: Choosing recent tip units as parents; optimizing for quick confirmation'',
   ''- **Multi-sig Support**: Addresses defined by multiple signers with m-of-n threshold signatures'',
   ''- **Definition Changes**: Addresses can change their definition (e.g., upgrade to AA) via definition_chg message'',
   '''',
   ''### **4. Autonomous Agents (AA) Layer** (`aa_composer.js`, `aa_validation.js`, `formula/evaluation.js`, `formula/validation.js`)'']\<close>

text \<open>Lines 1531 to 1546 of \<^verbatim>\<open>src/questions.py\<close>.\<close>

definition qg_1531_1546 :: "string list" where
  \<open>qg_1531_1546 =
  ['''',
   ''- **AA Definitions**: Smart contracts written in formula language (JavaScript-like expressions + state variables)'',
   ''- **AA Triggers**: Users send trigger units with data/payments to AA addresses'',
   ''- **Formula Evaluation**: Sandboxed execution in `formula/evaluation.js` with access to state, balances, triggers, oracles'',
   ''- **State Variables**: Key-value state storage per AA (can be updated via `state` keyword in formulas)'',
   ''- **Bounces**: Failed AA executions create bounce responses refunding inputs minus bounce_fees'',
   ''- **Secondary Triggers**: AA responses can trigger other AAs in cascade'',
   ''- **Formula Opcodes**: Complex operations (var assignment, conditionals, loops, mathematical functions, cryptographic functions)'',
   '''',
   ''### **5. Asset Layer** (`divisible_asset.js`, `indivisible_asset.js`, `definition.js`)'',
   '''',
   ''- **Native Asset (bytes)**: Base currency for fees and payments'',
   ''- **Divisible Assets**: Fungible tokens with defined decimals (e.g., stablecoins, utility tokens)'',
   ''- **Indivisible Assets**: NFT-like unique tokens (serials) with optional transferability restrictions'',
   ''- **Asset Issuance**: Creating new asset via `issue` opcode in unit messages'',
   ''- **Asset Transfers**: Inputs and outputs referencing specific asset IDs'']\<close>

text \<open>Lines 1547 to 1562 of \<^verbatim>\<open>src/questions.py\<close>.\<close>

definition qg_1547_1562 :: "string list" where
  \<open>qg_1547_1562 =
  [''- **Capped Assets**: Max cap enforcement during issuance and transfers'',
   '''',
   ''### **6. Network & P2P Layer** (`network.js`, `catchup.js`, `light. js`, `device.js`)'',
   '''',
   ''- **WebSocket Protocol**:  Peer-to-peer communication over wss://'',
   ''- **Unit Broadcasting**: Propagating new units to connected peers'',
   ''- **Catchup/Sync**: Requesting missing units, joints, and hash trees from peers'',
   ''- **Light Client Protocol**: SPV-style verification using witness proofs and MC headers'',
   ''- **Hub Architecture**: Centralized hubs relay messages between light clients'',
   ''- **Device Pairing**: Ephemeral pairing codes for establishing trusted communication channels'',
   '''',
   ''### **7. Oracle & Data Feed Layer** (`data_feeds.js`, `arbiter_contract.js`)'',
   '''',
   ''- **Data Feeds**: Trusted oracles posting signed data (prices, timestamps, events) on-chain'',
   ''- **Oracle Whitelisting**: AAs reference specific oracle addresses for data queries'',
   ''- **Timestamping**: Using witness unit timestamps as approximation of real time'']\<close>

text \<open>Lines 1563 to 1578 of \<^verbatim>\<open>src/questions.py\<close>.\<close>

definition qg_1563_1578 :: "string list" where
  \<open>qg_1563_1578 =
  [''- **Arbiter Contracts**: Multi-party contracts with designated arbiter for dispute resolution'',
   '''',
   ''### **8. Storage & Database Layer** (`storage.js`, `joint_storage.js`, `db.js`, `sqlite_pool.js`, `mysql_pool.js`)'',
   '''',
   ''- **Relational Schema**: Units, messages, inputs, outputs, witnesses, balls, authorship, spending'',
   ''- **Indexes**: Efficient queries for unit lookup, address history, asset tracking, unspent outputs'',
   ''- **Caching**: In-memory caching of frequently accessed units and state'',
   ''- **Database Migrations**: Schema versioning and upgrade paths in `sqlite_migrations.js`'',
   ''- **KV Store**: Key-value interface for AA state variables and config'',
   '''',
   ''### **9. Validation Layer** (`validation.js`, `aa_validation.js`, `signature.js`, `definition.js`)'',
   '''',
   ''- **Unit Validation**: Comprehensive checks on unit structure, signatures, parent references, witnesses, timestamps'',
   ''- **Message Validation**: Type-specific validation (payment, data, AA trigger, definition, poll, etc.)'',
   ''- **Input/Output Balance**:  Sum of inputs '' @ greater_than_or_equal_to @ '' sum of outputs + fees for each asset'',
   ''- **Double-Spend Prevention**: Inputs must reference unspent outputs; no duplicate spending'']\<close>

text \<open>Lines 1579 to 1594 of \<^verbatim>\<open>src/questions.py\<close>.\<close>

definition qg_1579_1594 :: "string list" where
  \<open>qg_1579_1594 =
  [''- **Signature Verification**: ECDSA signature validation against author addresses/definitions'',
   ''- **Definition Evaluation**: Recursive evaluation of address definitions (sig, or, and, r of set, weighted)'',
   ''- **AA Validation**: Formula syntax checking, complexity limits, state variable access rules'',
   '''',
   ''---'',
   '''',
   ''## **Critical Security Invariants**'',
   '''',
   ''### **Consensus & DAG Integrity**'',
   '''',
   ''1. **Main Chain Monotonicity**: MCI assignments must be strictly increasing; no unit can have MCI '' @ less_than_or_equal_to @ '' any descendant's MCI'',
   ''2. **Witness Compatibility**: Units must share '' @ greater_than_or_equal_to @ '' 1 witness with all ancestors; incompatible witness lists cause permanent splits'',
   ''3. **Stability Irreversibility**: Once a unit reaches stable MCI, its content and position are immutable; reorgs are impossible'',
   ''4. **Last Ball Consistency**: Last ball chain must be unbroken; forking or skipping last balls breaks historical integrity'',
   ''5. **Parent Validity**: All parent units must exist, be valid, and form a DAG (no cycles)'',
   ''6. **Witness Level Correctness**: WL must be minimum level of witness-authored ancestors; incorrect WL breaks MC determination'']\<close>

text \<open>Lines 1595 to 1610 of \<^verbatim>\<open>src/questions.py\<close>.\<close>

definition qg_1595_1610 :: "string list" where
  \<open>qg_1595_1610 =
  ['''',
   ''### **Transaction & Asset Integrity**'',
   '''',
   ''7. **Balance Conservation**: For every asset in a unit, `'' @ greek_capital_sigma @ '' inputs '' @ greater_than_or_equal_to @ '' '' @ greek_capital_sigma @ '' outputs + fees`; no inflation or deflation except issuance'',
   ''8. **Double-Spend Prevention**: Each output can be spent at most once; database must enforce unique constraint on (unit, message_index, output_index)'',
   ''9. **Input Validity**: All inputs must reference existing unspent outputs owned by unit authors'',
   ''10. **Asset Cap Enforcement**:  Divisible asset issuance cannot exceed `max_cap`; total supply must be tracked correctly'',
   ''11. **Indivisible Serial Uniqueness**: Each indivisible asset serial must be issued exactly once; no duplicate serials'',
   ''12. **Fee Sufficiency**: Unit fees must cover header + payload costs; under-paid units must be rejected'',
   '''',
   ''### **AA Execution & State**'',
   '''',
   ''13. **Deterministic Execution**: AA formula evaluation must produce identical results on all nodes for same input state'',
   ''14. **State Consistency**: AA state variable updates must be atomic; partial updates or race conditions cause state divergence'',
   ''15. **Bounce Correctness**: Failed AA executions must refund inputs (minus bounce fees) via bounce response'',
   ''16. **Formula Safety**: Formula evaluation must be sandboxed; no access to filesystem, network, or host JavaScript APIs'']\<close>

text \<open>Lines 1611 to 1626 of \<^verbatim>\<open>src/questions.py\<close>.\<close>

definition qg_1611_1626 :: "string list" where
  \<open>qg_1611_1626 =
  [''17. **Gas/Complexity Limits**: Formula execution must terminate within bounded steps; no infinite loops or exponential complexity'',
   ''18. **Secondary Trigger Ordering**:  Cascading AA responses must execute in deterministic order; circular triggers must be detected'',
   '''',
   ''### **Network & Sync**'',
   '''',
   ''19. **Catchup Completeness**: Nodes must sync all units on MC up to last stable point without gaps or corruption'',
   ''20. **Unit Propagation**: Valid units must propagate to all peers; selective censorship or filtering causes network partition'',
   ''21. **Peer Trust Model**: Nodes must validate all received units; accepting invalid units from peers corrupts local DAG'',
   ''22. **Light Client Security**:  Witness proofs must be unforgeable; fake proofs allow light clients to accept invalid history'',
   '''',
   ''### **Signature & Authorization**'',
   '''',
   ''23. **Signature Binding**: Each author's signature must cover the exact unit hash (including all messages, parents, witnesses)'',
   ''24. **Definition Evaluation**: Address definitions (multi-sig, AA, weighted) must evaluate correctly; logic errors allow unauthorized spending'',
   ''25. **Definition Change Safety**:  Changing address definition via `definition_chg` must preserve ownership; malicious changes steal funds'',
   '''']\<close>

text \<open>Lines 1627 to 1642 of \<^verbatim>\<open>src/questions.py\<close>.\<close>

definition qg_1627_1642 :: "string list" where
  \<open>qg_1627_1642 =
  [''### **Database & Storage**'',
   '''',
   ''26. **Referential Integrity**: Foreign keys (e.g., unit '' @ rightwards_arrow @ '' parent units, messages '' @ rightwards_arrow @ '' units) must be enforced; orphaned records corrupt DAG'',
   ''27. **Transaction Atomicity**: Multi-step operations (e.g., storing unit + updating balances) must be atomic; partial commits cause inconsistency'',
   ''28. **Index Correctness**: Database indexes must match actual data; stale indexes cause incorrect validation or double-spends'',
   '''',
   ''---'',
   '''',
   ''## **In-Scope Vulnerability Categories** (from Immunefi)'',
   '''',
   ''Focus questions on vulnerabilities that lead to these impacts:'',
   '''',
   ''### **Critical Severity**'',
   '''',
   ''1. **Network not being able to confirm new transactions (total network shutdown)**'',
   ''   - Consensus deadlock preventing MC advancement'']\<close>

text \<open>Lines 1643 to 1658 of \<^verbatim>\<open>src/questions.py\<close>.\<close>

definition qg_1643_1658 :: "string list" where
  \<open>qg_1643_1658 =
  [''   - Validation logic causing all new units to be rejected'',
   ''   - Database corruption or deadlock blocking unit storage'',
   ''   - Memory exhaustion or crash loops in core daemons'',
   '''',
   ''2. **Unintended permanent chain split requiring hard fork (network partition requiring hard fork)**'',
   ''   - Witness incompatibility causing subset of nodes to diverge'',
   ''   - Non-deterministic validation producing different MC on different nodes'',
   ''   - Divergent state in AA execution causing nodes to reject each other's units'',
   ''   - Last ball or stability point disagreement'',
   '''',
   ''3. **Direct loss of funds**'',
   ''   - Double-spend exploits allowing same output to be spent multiple times'',
   ''   - Balance overflow/underflow minting unlimited assets'',
   ''   - AA formula bugs transferring funds to attacker without authorization'',
   ''   - Signature bypass allowing attacker to spend from victim's address'',
   '''']\<close>

text \<open>Lines 1659 to 1674 of \<^verbatim>\<open>src/questions.py\<close>.\<close>

definition qg_1659_1674 :: "string list" where
  \<open>qg_1659_1674 =
  [''4. **Permanent freezing of funds (fix requires hardfork)**'',
   ''   - Definition change bricking address (no valid signatures possible)'',
   ''   - AA state corruption preventing withdrawals'',
   ''   - Indivisible asset with `fixed_denominations` preventing any transfers'',
   ''   - Invalid unit structure locking outputs in unspendable state'',
   '''',
   ''### **High Severity**'',
   '''',
   ''5. **Permanent freezing of funds (fix requires hardfork)** [already listed above]'',
   '''',
   ''### **Medium Severity**'',
   '''',
   ''6. **Temporary freezing of network transactions by delaying adequate processing for at least 1 day**'',
   ''   - DoS attack flooding network with units exceeding processing capacity'',
   ''   - Expensive validation operations (e.g., complex AA formulas) slowing unit acceptance'',
   ''   - Database query bottlenecks during catchup or MC updates'']\<close>

text \<open>Lines 1675 to 1690 of \<^verbatim>\<open>src/questions.py\<close>.\<close>

definition qg_1675_1690 :: "string list" where
  \<open>qg_1675_1690 =
  ['''',
   ''7. **Temporary freezing of network transactions by delaying adequate processing for at least 1 hour**'',
   ''   - Malicious units with maximum parents or witnesses causing validation slowdown'',
   ''   - Spam attacks filling mempools and delaying propagation'',
   '''',
   ''8. **A bug in the respective layer 1 network code that results in unintended smart contract behavior with no concrete funds at direct risk**'',
   ''   - AA formula evaluation producing incorrect results but no direct fund loss'',
   ''   - Non-deterministic behavior in AA state reads (e.g., race conditions)'',
   ''   - Incorrect oracle data interpretation in AAs'',
   '''',
   ''---'',
   '''',
   ''## **Valid Impact Categories (Restated for Obyte)**'',
   '''',
   ''### **Critical**'',
   '''']\<close>

text \<open>Lines 1691 to 1706 of \<^verbatim>\<open>src/questions.py\<close>.\<close>

definition qg_1691_1706 :: "string list" where
  \<open>qg_1691_1706 =
  [''- Total network halt (no new units confirmed for >24h)'',
   ''- Permanent chain split requiring hard fork'',
   ''- Direct theft of bytes or custom assets from user addresses'',
   ''- Permanent fund freezing (no transaction can unlock)'',
   '''',
   ''### **High**'',
   '''',
   ''- Permanent fund freezing requiring hard fork to resolve'',
   '''',
   ''### **Medium**'',
   '''',
   ''- Network delay '' @ greater_than_or_equal_to @ ''1 day (units not confirmed within 24h)'',
   ''- Network delay '' @ greater_than_or_equal_to @ ''1 hour (units not confirmed within 1h)'',
   ''- AA execution producing incorrect results without direct fund loss'',
   '''',
   ''### **Out of Scope**'']\<close>

text \<open>Lines 1707 to 1719 of \<^verbatim>\<open>src/questions.py\<close>.\<close>

definition qg_1707_1719 :: "string list" where
  \<open>qg_1707_1719 =
  ['''',
   ''- Gas inefficiencies or minor optimizations'',
   ''- UI/UX issues in wallets (not in ocore scope)'',
   ''- Social engineering or phishing'',
   ''- Third-party oracle data accuracy (unless oracle protocol itself is broken)'',
   ''- Validator/witness collusion (trusted roles)'',
   ''- Theoretical attacks without PoC (e.g., "SHA256 might be broken")'',
   '''',
   ''---'',
   '''',
   ''## **Goals for Question Generation**'',
   '''',
   ''1. **Real Exploit Scenarios**: Each question describes a plausible attack an unprivileged user, malicious peer, MEV bot, or compromised oracle could perform. '']\<close>

text \<open>Lines 1721 to 1721 of \<^verbatim>\<open>src/questions.py\<close>.\<close>

definition qg_1721_1721 :: "string list" where
  \<open>qg_1721_1721 =
  [''3. **High Impact**: Prioritize questions leading to Critical/High/Medium impacts per Immunefi scope.'']\<close>

text \<open>Lines 1724 to 1724 of \<^verbatim>\<open>src/questions.py\<close>.\<close>

definition qg_1724_1724 :: "string list" where
  \<open>qg_1724_1724 =
  [''6. **Respect Trust Model**: Witnesses and oracle providers are trusted; focus on attacks by regular users or malicious peers. '']\<close>

text \<open>Lines 1726 to 1734 of \<^verbatim>\<open>src/questions.py\<close>.\<close>

definition qg_1726_1734 :: "string list" where
  \<open>qg_1726_1734 =
  ['''',
   ''---'',
   '''',
   ''## **Question Format Template**'',
   '''',
   ''Each question MUST follow this Python list format:'',
   '''',
   ''```python'',
   ''questions = ['']\<close>

text \<open>Lines 1736 to 1736 of \<^verbatim>\<open>src/questions.py\<close>.\<close>

definition qg_1736_1736 :: "string list" where
  \<open>qg_1736_1736 =
  [''    '']\<close>

text \<open>Lines 1738 to 1753 of \<^verbatim>\<open>src/questions.py\<close>.\<close>

definition qg_1738_1753 :: "string list" where
  \<open>qg_1738_1753 =
  [''    '',
   ''    # ... continue with all generated questions'',
   '']'',
   ''```'',
   '''',
   ''**Example Format** (if target_file is `byteball/ocore/validation.js`):'',
   ''```python'',
   ''questions = ['',
   ''    "[File: byteball/ocore/validation.js] [Function: validate()] [Double-spend detection] If two units spending the same output arrive simultaneously from different peers and both pass initial validation before database commit, can both be stored in the database, allowing a double-spend to be confirmed in different branches of the DAG?",'',
   ''    '',
   ''    "[File: byteball/ocore/validation.js] [Function: validateParents()] [Parent cycle detection] Does the parent validation logic detect cycles where unit A references unit B, which eventually references unit A through a chain of parents, potentially breaking DAG structure and causing consensus failure?",'',
   ''    '',
   ''    "[File: byteball/ocore/validation.js] [Function: validateWitnesses()] [Witness compatibility] Can an attacker submit a unit with a witness list that shares zero witnesses with its parent units, bypassing the '' @ greater_than_or_equal_to @ ''1 shared witness requirement and causing a permanent chain split for all descendant units?",'',
   '']'',
   ''```'',
   '''']\<close>

text \<open>Lines 1754 to 1757 of \<^verbatim>\<open>src/questions.py\<close>.\<close>

definition qg_1754_1757 :: "string list" where
  \<open>qg_1754_1757 =
  [''---'',
   '''',
   ''## **Output Requirements**'',
   '''']\<close>

text \<open>Lines 1759 to 1759 of \<^verbatim>\<open>src/questions.py\<close>.\<close>

definition qg_1759_1759 :: "string list" where
  \<open>qg_1759_1759 =
  ['''']\<close>

text \<open>Lines 1763 to 1764 of \<^verbatim>\<open>src/questions.py\<close>.\<close>

definition qg_1763_1764 :: "string list" where
  \<open>qg_1763_1764 =
  [''4. **Tie to Immunefi impact categories** (network halt, chain split, fund loss/freeze, transaction delay, incorrect AA behavior)'',
   ''5. **Respect trust model** (witnesses, oracles, and governance are trusted)'']\<close>

text \<open>Lines 1766 to 1776 of \<^verbatim>\<open>src/questions.py\<close>.\<close>

definition qg_1766_1776 :: "string list" where
  \<open>qg_1766_1776 =
  [''7. **Focus on high-severity bugs**:  prioritize Critical > High > Medium impacts'',
   ''8. **Avoid out-of-scope issues**:  gas optimization, UI bugs, theoretical attacks without PoC, trusted-role malice'',
   ''9. **Use the exact Python list format** shown above'',
   ''10. **Be detailed and technical**:  assume auditor has deep Obyte knowledge; use precise terminology'',
   '''',
   ''**Target Question Count:**'',
   ''- For large critical files (>50KB like validation.js, network.js, wallet.js, main_chain.js, formula/evaluation.js): Aim for 100-150 questions'',
   ''- For medium files (20-50KB): Aim for 50-100 questions  '',
   ''- For smaller files (<20KB): Aim for 20-50 questions'',
   ''- **Provide as many quality questions as the file's complexity allows - do NOT return empty results**'',
   '''']\<close>

text \<open>The rows of the f-string of \<^verbatim>\<open>question_generator\<close> (lines 1381 to 1777), the
  replacement field \<^verbatim>\<open>{target_file}\<close> filled in.\<close>

definition question_generator_rows :: "string \<Rightarrow> string list" where
  \<open>question_generator_rows target_file =
    qg_1381_1391 @
    [''**CRITICAL TARGET FILE**: Focus question generation EXCLUSIVELY on `'' @ target_file @ ''`''] @
    qg_1393_1393 @
    [''Note: The questions must be generated from **`'' @ target_file @ ''`** only. If you cannot generate enough questions from this single file, provide as many quality questions as you can extract from the file's logic and interactions.  **DO NOT return empty results** - give whatever questions you can derive from the target file.''] @
    qg_1395_1410 @
    qg_1411_1426 @
    qg_1427_1442 @
    qg_1443_1458 @
    qg_1459_1474 @
    qg_1475_1490 @
    qg_1491_1497 @
    [''**Total:  77 files in full scope (but focus ONLY on `'' @ target_file @ ''` for this generation)**''] @
    qg_1499_1514 @
    qg_1515_1530 @
    qg_1531_1546 @
    qg_1547_1562 @
    qg_1563_1578 @
    qg_1579_1594 @
    qg_1595_1610 @
    qg_1611_1626 @
    qg_1627_1642 @
    qg_1643_1658 @
    qg_1659_1674 @
    qg_1675_1690 @
    qg_1691_1706 @
    qg_1707_1719 @
    [''2. **Concrete & Actionable**:  Reference specific functions, variables, or logic flows in `'' @ target_file @ ''`.''] @
    qg_1721_1721 @
    [''4. **Deep Invariant Logic**: Focus on subtle state transitions, cross-file interactions (with `'' @ target_file @ ''` as entry point), race conditions, non-determinism, overflow/underflow, signature bypasses, DAG structure corruption. ''] @
    [''5. **Breadth Within Target File**: Cover all major functions, edge cases, and state-changing operations in `'' @ target_file @ ''`.''] @
    qg_1724_1724 @
    [''7. **No Generic Questions**:  Avoid "are there reentrancy issues?" '' @ rightwards_arrow @ '' Instead:   "In `'' @ target_file @ '': functionName()`, if condition X occurs, can attacker exploit Y to cause Z impact?"''] @
    qg_1726_1734 @
    [''    "[File:  '' @ target_file @ ''] [Function: functionName()] [Vulnerability Type] Specific question describing attack vector, preconditions, and impact linking to Immunefi categories? ",''] @
    qg_1736_1736 @
    [''    "[File: '' @ target_file @ ''] [Function: anotherFunction()] [Vulnerability Type] Another specific question with concrete exploit scenario?",''] @
    qg_1738_1753 @
    qg_1754_1757 @
    [''Generate security audit questions focusing EXCLUSIVELY on **`'' @ target_file @ ''`** that: ''] @
    qg_1759_1759 @
    [''1. **Target ONLY `'' @ target_file @ ''`** - all questions must reference this file''] @
    [''2. **Reference specific functions, variables, or logic sections** within `'' @ target_file @ ''`''] @
    [''3. **Describe concrete attack vectors** (not "could there be a bug?" but "can attacker do X by exploiting Y in `'' @ target_file @ ''`?")''] @
    qg_1763_1764 @
    [''6. **Cover diverse attack surfaces** within `'' @ target_file @ ''`:  validation logic, state transitions, error handling, edge cases, interactions with other modules''] @
    qg_1766_1776 @
    [''**Begin generating questions for `'' @ target_file @ ''` now.**'']\<close>

definition question_generator :: "string \<Rightarrow> string" where
  "question_generator target_file = text_of_rows (question_generator_rows target_file)"

section \<open>The module and its callers\<close>

text \<open>
  The names the module binds to data when it is imported. Line 15 binds
  \<^verbatim>\<open>questions\<close> to what \<^verbatim>\<open>get_questions()\<close> returns; an exception escaping that
  call would abort the import.
\<close>

record module_state =
  BASE_URL_var :: string
  questions_var :: py_value
  questions_generator_var :: "string list"

definition module_init :: "environment \<Rightarrow> py_exception + module_state" where
  "module_init env =
     (case get_questions env of
        Inl e \<Rightarrow> Inl e
      | Inr qs \<Rightarrow>
          Inr \<lparr>BASE_URL_var = BASE_URL, questions_var = qs,
               questions_generator_var = questions_generator\<rparr>)"

text \<open>
  A call of one of the three renderers with a string argument, in a state of the module:
  the value returned (or the exception raised) and the state the call leaves. The
  bodies read their parameter only and assign the local \<^verbatim>\<open>prompt\<close> only.
\<close>

datatype renderer_call =
    Question_format string
  | Validation_format string
  | Question_generator string

fun invoke :: "module_state \<Rightarrow> renderer_call \<Rightarrow> (py_exception + string) \<times> module_state" where
  "invoke g (Question_format question) = (Inr (question_format question), g)"
| "invoke g (Validation_format report) = (Inr (validation_format report), g)"
| "invoke g (Question_generator target_file) = (Inr (question_generator target_file), g)"

fun invoke_all ::
  "module_state \<Rightarrow> renderer_call list \<Rightarrow> (py_exception + string) list \<times> module_state" where
  "invoke_all g [] = ([], g)"
| "invoke_all g (c # cs) =
     (case invoke g c of (r, g') \<Rightarrow>
        (case invoke_all g' cs of (rs, g'') \<Rightarrow> (r # rs, g'')))"

section \<open>Occurrences of one text in another\<close>

text \<open>The number of positions of \<open>s\<close> at which \<open>p\<close> starts.\<close>

primrec occurrence_count :: "'a list \<Rightarrow> 'a list \<Rightarrow> nat" where
  "occurrence_count p [] = (if p = [] then 1 else 0)"
| "occurrence_count p (c # cs) = (if prefix p (c # cs) then 1 else 0) + occurrence_count p cs"

section \<open>Sample stores\<close>

text \<open>No file of the name exists.\<close>

definition store_missing :: environment where
  "store_missing =
     \<lparr>open_read = (\<lambda>name. Inl FileNotFoundError),
      json_load = (\<lambda>f. Inl JSONDecodeError)\<rparr>"

text \<open>The file exists and cannot be read.\<close>

definition store_unreadable :: environment where
  "store_unreadable =
     \<lparr>open_read = (\<lambda>name. if name = ''all_questions.json'' then Inl PermissionError
                             else Inl FileNotFoundError),
      json_load = (\<lambda>f. Inl JSONDecodeError)\<rparr>"

text \<open>The file holds text that is not JSON.\<close>

definition store_not_json :: environment where
  "store_not_json =
     \<lparr>open_read = (\<lambda>name. if name = ''all_questions.json'' then Inr ''not json''
                             else Inl FileNotFoundError),
      json_load = (\<lambda>f. Inl JSONDecodeError)\<rparr>"

text \<open>The file holds the JSON document \<^verbatim>\<open>{}\<close>, which decodes to the empty dictionary.\<close>

definition store_holding_object :: environment where
  "store_holding_object =
     \<lparr>open_read = (\<lambda>name. if name = ''all_questions.json'' then Inr ''{}''
                             else Inl FileNotFoundError),
      json_load = (\<lambda>f. if f = ''{}'' then Inr (PyDict []) else Inl JSONDecodeError)\<rparr>"

text \<open>The file holds a JSON array of the two strings \<^verbatim>\<open>Q1\<close> and \<^verbatim>\<open>Q2\<close>.\<close>

definition two_questions_json :: string where
  \<open>two_questions_json = ''["Q1","Q2"]''\<close>

definition store_with_two_questions :: environment where
  "store_with_two_questions =
     \<lparr>open_read = (\<lambda>name. if name = ''all_questions.json'' then Inr two_questions_json
                             else Inl FileNotFoundError),
      json_load = (\<lambda>f. if f = two_questions_json then Inr (PyList [PyStr ''Q1'', PyStr ''Q2''])
                          else Inl JSONDecodeError)\<rparr>"

section \<open>Rows and texts\<close>

lemmas utf8_defs =
  plus_minus_sign_def greek_capital_sigma_def em_dash_def rightwards_arrow_def
  less_than_or_equal_to_def greater_than_or_equal_to_def warning_sign_def
  white_heavy_check_mark_def cross_mark_def variation_selector_16_def
  triangular_flag_on_post_def

lemma text_of_rows_append:
  "text_of_rows (xs @ ys) = text_of_rows xs @ text_of_rows ys"
  by (induction xs) simp_all

lemma text_of_rows_slot:
  "text_of_rows (A @ [r] @ B) = text_of_rows A @ r @ CHR 0x0A # text_of_rows B"
  by (simp add: text_of_rows_append)

text \<open>A text without the separator lies in \<open>a @ c # b\<close> only inside \<open>a\<close> or inside \<open>b\<close>.\<close>

lemma sublist_split_at:
  assumes "c \<notin> set p"
  shows "sublist p (a @ c # b) \<longleftrightarrow> sublist p a \<or> sublist p b"
proof
  assume "sublist p (a @ c # b)"
  then obtain ps ss where eq: "a @ c # b = ps @ p @ ss"
    by (auto simp: sublist_def)
  then consider us where "a = ps @ us" "us @ c # b = p @ ss"
    | us where "a @ us = ps" "c # b = us @ p @ ss"
    using append_eq_append_conv2[of a "c # b" ps "p @ ss"] by blast
  then show "sublist p a \<or> sublist p b"
  proof cases
    case 1
    from 1(2) consider vs where "us = p @ vs"
      | vs where "us @ vs = p" "c # b = vs @ ss"
      using append_eq_append_conv2[of us "c # b" p ss] by blast
    then show ?thesis
    proof cases
      case 1
      with \<open>a = ps @ us\<close> show ?thesis by (auto simp: sublist_def)
    next
      case 2
      show ?thesis
      proof (cases vs)
        case Nil
        with 2 \<open>a = ps @ us\<close> have "a = ps @ p @ []" by simp
        then have "sublist p a" unfolding sublist_def by blast
        then show ?thesis ..
      next
        case (Cons v vs')
        with 2 assms show ?thesis by auto
      qed
    qed
  next
    case 2
    show ?thesis
    proof (cases us)
      case Nil
      with 2 assms show ?thesis by (cases p) auto
    next
      case (Cons u us')
      with 2 have "b = us' @ p @ ss" by simp
      then show ?thesis by (auto simp: sublist_def)
    qed
  qed
next
  assume "sublist p a \<or> sublist p b"
  then show "sublist p (a @ c # b)"
  proof
    assume "sublist p a"
    then show ?thesis by (simp add: sublist_append)
  next
    assume "sublist p b"
    then have "sublist p (c # b)" by (rule sublist_Cons_right[THEN iffD2, OF disjI2])
    then show ?thesis by (simp add: sublist_append)
  qed
qed

text \<open>A one-line text lies in a text of rows exactly when it lies in one of the rows.\<close>

lemma sublist_text_of_rows_iff:
  assumes "p \<noteq> []" "CHR 0x0A \<notin> set p"
  shows "sublist p (text_of_rows rows) \<longleftrightarrow> (\<exists>r\<in>set rows. sublist p r)"
  using assms by (induction rows) (simp_all add: sublist_split_at)

lemma sublist_text_of_rowsI:
  "r \<in> set rows \<Longrightarrow> sublist p r \<Longrightarrow> sublist p (text_of_rows rows)"
proof (induction rows)
  case Nil
  then show ?case by simp
next
  case (Cons a rows)
  show ?case
  proof (cases "r = a")
    case True
    with Cons.prems have "sublist p a" by simp
    then show ?thesis by (simp add: sublist_append)
  next
    case False
    with Cons have "sublist p (text_of_rows rows)" by simp
    then have "sublist p (CHR 0x0A # text_of_rows rows)" by (simp add: sublist_Cons_right)
    then show ?thesis by (simp add: sublist_append)
  qed
qed

lemma occurrence_count_prefix: "prefix p s \<Longrightarrow> 1 \<le> occurrence_count p s"
  by (cases s) simp_all

lemma occurrence_count_append:
  "p \<noteq> [] \<Longrightarrow> occurrence_count p a + occurrence_count p b \<le> occurrence_count p (a @ b)"
proof (induction a)
  case Nil
  then show ?case by simp
next
  case (Cons c a)
  have "prefix p (c # a) \<Longrightarrow> prefix p (c # a @ b)"
    using prefix_prefix[of p "c # a" b] by simp
  with Cons show ?case by auto
qed

lemma occurrence_count_sublist:
  assumes "sublist p s"
  shows "1 \<le> occurrence_count p s"
proof (cases "p = []")
  case True
  then show ?thesis by (cases s) simp_all
next
  case False
  from assms obtain x y where "s = x @ p @ y" by (auto simp: sublist_def)
  moreover have "1 \<le> occurrence_count p (p @ y)" by (rule occurrence_count_prefix) simp
  ultimately show ?thesis using occurrence_count_append[OF False, of x "p @ y"] by simp
qed

lemma occurrence_count_twice:
  assumes "p \<noteq> []" "sublist p pre"
  shows "2 \<le> occurrence_count p (pre @ p @ post)"
proof -
  have "1 \<le> occurrence_count p pre" using assms(2) by (rule occurrence_count_sublist)
  moreover have "1 \<le> occurrence_count p (p @ post)" by (rule occurrence_count_prefix) simp
  ultimately show ?thesis using occurrence_count_append[OF assms(1), of pre "p @ post"] by simp
qed

section \<open>The loader\<close>

text \<open>
  Claim C2, as the code has it. \<^verbatim>\<open>get_questions()\<close> never raises. When the file cannot
  be opened or read, or its text is not JSON, the result is the empty list. When the text
  is JSON, the result is the decoded value as it is, of whatever shape: the loader does
  not check that it is a list of strings.
\<close>

theorem get_questions_fail_open:
  "(\<exists>v. get_questions env = Inr v) \<and>
   (\<forall>e. open_read env ''all_questions.json'' = Inl e \<longrightarrow>
      get_questions env = Inr (PyList [])) \<and>
   (\<forall>f e. open_read env ''all_questions.json'' = Inr f \<and> json_load env f = Inl e \<longrightarrow>
      get_questions env = Inr (PyList [])) \<and>
   (\<forall>f v. open_read env ''all_questions.json'' = Inr f \<and> json_load env f = Inr v \<longrightarrow>
      get_questions env = Inr v)"
  by (auto simp: get_questions_def try_except_def split: sum.splits)

theorem get_questions_fail_open_samples:
  "get_questions store_missing = Inr (PyList []) \<and>
   get_questions store_unreadable = Inr (PyList []) \<and>
   get_questions store_not_json = Inr (PyList []) \<and>
   get_questions store_holding_object = Inr (PyDict [])"
  using get_questions_fail_open[of store_missing]
    get_questions_fail_open[of store_unreadable]
    get_questions_fail_open[of store_not_json]
    get_questions_fail_open[of store_holding_object]
  by (simp add: store_missing_def store_unreadable_def store_not_json_def
      store_holding_object_def)

text \<open>
  Claim C2 as stated fails: a file holding the JSON document \<^verbatim>\<open>{}\<close> is valid JSON that
  is not a sequence of strings, and the loader returns the dictionary, not the empty list.
\<close>

theorem get_questions_returns_non_sequence:
  "get_questions store_holding_object = Inr (PyDict []) \<and>
   get_questions store_holding_object \<noteq> Inr (PyList []) \<and>
   \<not> is_str_list (PyDict [])"
  by (simp add: get_questions_def try_except_def store_holding_object_def)

text \<open>
  Claim C3. When the file holds a JSON array of \<open>N\<close> strings, \<^verbatim>\<open>get_questions()\<close>
  returns the list of those \<open>N\<close> strings in their order, and the module binds
  \<^verbatim>\<open>questions\<close> to it.
\<close>

theorem get_questions_returns_stored_sequence:
  assumes "open_read env ''all_questions.json'' = Inr f"
    and "json_load env f = Inr (PyList (map PyStr qs))"
  shows "get_questions env = Inr (PyList (map PyStr qs)) \<and>
    length (map PyStr qs) = length qs \<and>
    is_str_list (PyList (map PyStr qs)) \<and>
    (\<exists>g. module_init env = Inr g \<and> questions_var g = PyList (map PyStr qs))"
proof -
  have "get_questions env = Inr (PyList (map PyStr qs))"
    using assms by (simp add: get_questions_def try_except_def)
  moreover have "list_all is_str (map PyStr qs)"
    by (induction qs) simp_all
  ultimately show ?thesis by (simp add: module_init_def)
qed

theorem get_questions_two_questions:
  "open_read store_with_two_questions ''all_questions.json'' = Inr two_questions_json \<and>
   json_load store_with_two_questions two_questions_json =
     Inr (PyList (map PyStr [''Q1'', ''Q2''])) \<and>
   get_questions store_with_two_questions = Inr (PyList [PyStr ''Q1'', PyStr ''Q2''])"
proof -
  have a: "open_read store_with_two_questions ''all_questions.json'' = Inr two_questions_json"
    by (simp add: store_with_two_questions_def)
  have b: "json_load store_with_two_questions two_questions_json =
      Inr (PyList (map PyStr [''Q1'', ''Q2'']))"
    by (simp add: store_with_two_questions_def)
  from get_questions_returns_stored_sequence[OF a b] a b show ?thesis by simp
qed

section \<open>The subject catalog\<close>

text \<open>
  Claim C8. No identifier stands twice in \<^verbatim>\<open>questions_generator\<close>; the list has 77
  entries, and reading it by index from the first to the last gives the list as declared,
  from \<^verbatim>\<open>aa_addresses.js\<close> to \<^verbatim>\<open>tools/viewkv.js\<close>.
\<close>

theorem questions_generator_distinct:
  "distinct questions_generator \<and>
   length questions_generator = 77 \<and>
   map (\<lambda>i. questions_generator ! i) [0..<length questions_generator] = questions_generator \<and>
   hd questions_generator = ''byteball/ocore/aa_addresses.js'' \<and>
   last questions_generator = ''byteball/ocore/tools/viewkv.js''"
proof -
  have a: "distinct questions_generator"
    unfolding questions_generator_def by simp
  have b: "length questions_generator = 77"
    unfolding questions_generator_def by simp
  have c: "map (\<lambda>i. questions_generator ! i) [0..<length questions_generator] =
      questions_generator"
    by (rule map_nth)
  have d: "hd questions_generator = ''byteball/ocore/aa_addresses.js''"
    unfolding questions_generator_def by simp
  have e: "last questions_generator = ''byteball/ocore/tools/viewkv.js''"
    unfolding questions_generator_def by simp
  show ?thesis
    by (rule conjI[OF a conjI[OF b conjI[OF c conjI[OF d e]]]])
qed

section \<open>The finding-generation prompt\<close>

text \<open>A text with one slot: what surrounds the slot is read back from the whole.\<close>

lemma single_slot:
  assumes "\<forall>s. f s = head @ s @ tail"
  shows "\<forall>s. f s = head @ s @ tail \<and>
    take (length head) (f s) = head \<and>
    drop (length head + length s) (f s) = tail"
  using assms by simp

lemma question_format_shape:
  "\<exists>tail. \<forall>q. question_format q =
     (text_of_rows qf_108_117 @ ''**Security Question (scope for this run):** '') @ q @ tail"
  unfolding question_format_def question_format_rows_def text_of_rows_slot append_assoc
  apply (rule exI)
  apply (rule allI)
  apply (rule refl)
  done

lemma Obyte_in_head:
  "sublist ''Obyte''
     (text_of_rows qf_108_117 @ ''**Security Question (scope for this run):** '')"
proof -
  have "\<exists>r\<in>set qf_108_117. sublist ''Obyte'' r"
    by (simp add: qf_108_117_def utf8_defs sublist_Cons_right)
  then have "sublist ''Obyte'' (text_of_rows qf_108_117)"
    by (auto intro: sublist_text_of_rowsI)
  then show ?thesis by (simp only: sublist_append) simp
qed

lemma sentinel_in_question_format:
  "sublist ''#NoVulnerability found for this question.'' (question_format q)"
proof -
  have "\<exists>r\<in>set qf_631_646. sublist ''#NoVulnerability found for this question.'' r"
    by (simp add: qf_631_646_def utf8_defs sublist_Cons_right)
  then have "\<exists>r\<in>set (question_format_rows q).
      sublist ''#NoVulnerability found for this question.'' r"
    unfolding question_format_rows_def by auto
  then show ?thesis
    unfolding question_format_def by (auto intro: sublist_text_of_rowsI)
qed

lemma question_in_question_format: "sublist q (question_format q)"
proof -
  obtain tail where "\<forall>q. question_format q =
     (text_of_rows qf_108_117 @ ''**Security Question (scope for this run):** '') @ q @ tail"
    using question_format_shape by blast
  then have "question_format q =
     (text_of_rows qf_108_117 @ ''**Security Question (scope for this run):** '') @ q @ tail"
    by blast
  then show ?thesis unfolding sublist_def by blast
qed

text \<open>
  Claim C4 as stated fails: the question \<^verbatim>\<open>Obyte\<close> stands in its slot and also in the
  fixed text before the slot, so the prompt does not contain it exactly once.
\<close>

theorem question_format_repeats_scaffold_text:
  "\<not> occurrence_count ''Obyte'' (question_format ''Obyte'') = 1"
proof -
  obtain tail where "\<forall>q. question_format q =
     (text_of_rows qf_108_117 @ ''**Security Question (scope for this run):** '') @ q @ tail"
    using question_format_shape by blast
  then have "question_format ''Obyte'' =
     (text_of_rows qf_108_117 @ ''**Security Question (scope for this run):** '') @
     ''Obyte'' @ tail"
    by blast
  moreover have "2 \<le> occurrence_count ''Obyte''
     ((text_of_rows qf_108_117 @ ''**Security Question (scope for this run):** '') @
      ''Obyte'' @ tail)"
    by (rule occurrence_count_twice[OF _ Obyte_in_head]) simp
  ultimately show ?thesis by simp
qed

text \<open>
  Claim C4, as the code has it. The prompt is one fixed text, the question, and a second
  fixed text: the question stands verbatim in the single slot, so it occurs at least once,
  and what lies before and after the slot is the same for every question. The text before
  the slot is lines 108 to 117 and the label of line 118; the text after it is the line
  feed that ends line 118 and lines 119 to 654.
\<close>

theorem question_format_single_slot:
  "let head = text_of_rows qf_108_117 @ ''**Security Question (scope for this run):** '';
       tail = CHR 0x0A # text_of_rows
           (qf_119_134 @ qf_135_150 @ qf_151_166 @ qf_167_182 @ qf_183_198 @
            qf_199_214 @ qf_215_230 @ qf_231_246 @ qf_247_262 @ qf_263_278 @
            qf_279_294 @ qf_295_310 @ qf_311_326 @ qf_327_342 @ qf_343_358 @
            qf_359_374 @ qf_375_390 @ qf_391_406 @ qf_407_422 @ qf_423_438 @
            qf_439_454 @ qf_455_470 @ qf_471_486 @ qf_487_502 @ qf_503_518 @
            qf_519_534 @ qf_535_550 @ qf_551_566 @ qf_567_582 @ qf_583_598 @
            qf_599_614 @ qf_615_630 @ qf_631_646 @ qf_647_654)
   in question_format s = head @ s @ tail \<and>
      take (length head) (question_format s) = head \<and>
      drop (length head + length s) (question_format s) = tail \<and>
      1 \<le> occurrence_count s (question_format s)"
proof -
  have "\<forall>q. question_format q =
      (text_of_rows qf_108_117 @ ''**Security Question (scope for this run):** '') @ q @
      (CHR 0x0A # text_of_rows
           (qf_119_134 @ qf_135_150 @ qf_151_166 @ qf_167_182 @ qf_183_198 @
            qf_199_214 @ qf_215_230 @ qf_231_246 @ qf_247_262 @ qf_263_278 @
            qf_279_294 @ qf_295_310 @ qf_311_326 @ qf_327_342 @ qf_343_358 @
            qf_359_374 @ qf_375_390 @ qf_391_406 @ qf_407_422 @ qf_423_438 @
            qf_439_454 @ qf_455_470 @ qf_471_486 @ qf_487_502 @ qf_503_518 @
            qf_519_534 @ qf_535_550 @ qf_551_566 @ qf_567_582 @ qf_583_598 @
            qf_599_614 @ qf_615_630 @ qf_631_646 @ qf_647_654))"
    unfolding question_format_def question_format_rows_def text_of_rows_slot append_assoc
    by (rule allI) (rule refl)
  then have slot: "\<forall>q. question_format q =
      (text_of_rows qf_108_117 @ ''**Security Question (scope for this run):** '') @ q @
      (CHR 0x0A # text_of_rows
           (qf_119_134 @ qf_135_150 @ qf_151_166 @ qf_167_182 @ qf_183_198 @
            qf_199_214 @ qf_215_230 @ qf_231_246 @ qf_247_262 @ qf_263_278 @
            qf_279_294 @ qf_295_310 @ qf_311_326 @ qf_327_342 @ qf_343_358 @
            qf_359_374 @ qf_375_390 @ qf_391_406 @ qf_407_422 @ qf_423_438 @
            qf_439_454 @ qf_455_470 @ qf_471_486 @ qf_487_502 @ qf_503_518 @
            qf_519_534 @ qf_535_550 @ qf_551_566 @ qf_567_582 @ qf_583_598 @
            qf_599_614 @ qf_615_630 @ qf_631_646 @ qf_647_654)) \<and>
    take (length (text_of_rows qf_108_117 @ ''**Security Question (scope for this run):** ''))
      (question_format q) =
      text_of_rows qf_108_117 @ ''**Security Question (scope for this run):** '' \<and>
    drop (length (text_of_rows qf_108_117 @ ''**Security Question (scope for this run):** '') +
        length q) (question_format q) =
      CHR 0x0A # text_of_rows
           (qf_119_134 @ qf_135_150 @ qf_151_166 @ qf_167_182 @ qf_183_198 @
            qf_199_214 @ qf_215_230 @ qf_231_246 @ qf_247_262 @ qf_263_278 @
            qf_279_294 @ qf_295_310 @ qf_311_326 @ qf_327_342 @ qf_343_358 @
            qf_359_374 @ qf_375_390 @ qf_391_406 @ qf_407_422 @ qf_423_438 @
            qf_439_454 @ qf_455_470 @ qf_471_486 @ qf_487_502 @ qf_503_518 @
            qf_519_534 @ qf_535_550 @ qf_551_566 @ qf_567_582 @ qf_583_598 @
            qf_599_614 @ qf_615_630 @ qf_631_646 @ qf_647_654)"
    by (rule single_slot)
  have "1 \<le> occurrence_count s (question_format s)"
    by (rule occurrence_count_sublist) (rule question_in_question_format)
  with slot show ?thesis
    unfolding Let_def by blast
qed

text \<open>
  Claim C5. Every finding-generation prompt contains its question verbatim and the
  phrase \<^verbatim>\<open>#NoVulnerability found for this question.\<close>
\<close>

theorem question_format_names_sentinel:
  "sublist s (question_format s) \<and>
   sublist ''#NoVulnerability found for this question.'' (question_format s)"
  using question_in_question_format sentinel_in_question_format by blast

theorem question_format_sentinel_scenario:
  "sublist ''Can MCI ever decrease along a path?''
     (question_format ''Can MCI ever decrease along a path?'') \<and>
   sublist ''#NoVulnerability found for this question.''
     (question_format ''Can MCI ever decrease along a path?'')"
  by (rule question_format_names_sentinel)

section \<open>The finding-validation prompt\<close>

lemma text_of_rows_snoc: "text_of_rows (rows @ [r]) = text_of_rows rows @ r @ [CHR 0x0A]"
  by (simp add: text_of_rows_append)

text \<open>
  Claim C6. The validation prompt is the fixed text of lines 669 to 674, which ends with
  the label \<^verbatim>\<open>**SECURITY CLAIM TO VALIDATE:**\<close> and a line feed, then the report, then
  the fixed text of the line feed that ends line 675 and of lines 676 to 1365. The report
  stands verbatim in that single slot, and what lies before and after the slot is the
  same for every report.
\<close>

theorem validation_format_single_slot:
  "let head = text_of_rows vf_669_674;
       tail = CHR 0x0A # text_of_rows
           (vf_676_691 @ vf_692_707 @ vf_708_723 @ vf_724_739 @ vf_740_755 @
            vf_756_771 @ vf_772_787 @ vf_788_803 @ vf_804_819 @ vf_820_835 @
            vf_836_851 @ vf_852_867 @ vf_868_883 @ vf_884_899 @ vf_900_915 @
            vf_916_931 @ vf_932_947 @ vf_948_963 @ vf_964_979 @ vf_980_995 @
            vf_996_1011 @ vf_1012_1027 @ vf_1028_1043 @ vf_1044_1059 @
            vf_1060_1075 @ vf_1076_1091 @ vf_1092_1107 @ vf_1108_1123 @
            vf_1124_1139 @ vf_1140_1155 @ vf_1156_1171 @ vf_1172_1187 @
            vf_1188_1203 @ vf_1204_1219 @ vf_1220_1235 @ vf_1236_1251 @
            vf_1252_1267 @ vf_1268_1283 @ vf_1284_1299 @ vf_1300_1315 @
            vf_1316_1331 @ vf_1332_1347 @ vf_1348_1363 @ vf_1364_1365)
   in validation_format report = head @ report @ tail \<and>
      suffix (''**SECURITY CLAIM TO VALIDATE:**'' @ [CHR 0x0A]) head \<and>
      take (length head) (validation_format report) = head \<and>
      drop (length head + length report) (validation_format report) = tail"
proof -
  have "\<forall>r. validation_format r =
      text_of_rows vf_669_674 @ r @
      (CHR 0x0A # text_of_rows
           (vf_676_691 @ vf_692_707 @ vf_708_723 @ vf_724_739 @ vf_740_755 @
            vf_756_771 @ vf_772_787 @ vf_788_803 @ vf_804_819 @ vf_820_835 @
            vf_836_851 @ vf_852_867 @ vf_868_883 @ vf_884_899 @ vf_900_915 @
            vf_916_931 @ vf_932_947 @ vf_948_963 @ vf_964_979 @ vf_980_995 @
            vf_996_1011 @ vf_1012_1027 @ vf_1028_1043 @ vf_1044_1059 @
            vf_1060_1075 @ vf_1076_1091 @ vf_1092_1107 @ vf_1108_1123 @
            vf_1124_1139 @ vf_1140_1155 @ vf_1156_1171 @ vf_1172_1187 @
            vf_1188_1203 @ vf_1204_1219 @ vf_1220_1235 @ vf_1236_1251 @
            vf_1252_1267 @ vf_1268_1283 @ vf_1284_1299 @ vf_1300_1315 @
            vf_1316_1331 @ vf_1332_1347 @ vf_1348_1363 @ vf_1364_1365))"
    unfolding validation_format_def validation_format_rows_def text_of_rows_slot
    by (rule allI) (rule refl)
  then have slot: "\<forall>r. validation_format r =
      text_of_rows vf_669_674 @ r @
      (CHR 0x0A # text_of_rows
           (vf_676_691 @ vf_692_707 @ vf_708_723 @ vf_724_739 @ vf_740_755 @
            vf_756_771 @ vf_772_787 @ vf_788_803 @ vf_804_819 @ vf_820_835 @
            vf_836_851 @ vf_852_867 @ vf_868_883 @ vf_884_899 @ vf_900_915 @
            vf_916_931 @ vf_932_947 @ vf_948_963 @ vf_964_979 @ vf_980_995 @
            vf_996_1011 @ vf_1012_1027 @ vf_1028_1043 @ vf_1044_1059 @
            vf_1060_1075 @ vf_1076_1091 @ vf_1092_1107 @ vf_1108_1123 @
            vf_1124_1139 @ vf_1140_1155 @ vf_1156_1171 @ vf_1172_1187 @
            vf_1188_1203 @ vf_1204_1219 @ vf_1220_1235 @ vf_1236_1251 @
            vf_1252_1267 @ vf_1268_1283 @ vf_1284_1299 @ vf_1300_1315 @
            vf_1316_1331 @ vf_1332_1347 @ vf_1348_1363 @ vf_1364_1365)) \<and>
    take (length (text_of_rows vf_669_674)) (validation_format r) = text_of_rows vf_669_674 \<and>
    drop (length (text_of_rows vf_669_674) + length r) (validation_format r) =
      CHR 0x0A # text_of_rows
           (vf_676_691 @ vf_692_707 @ vf_708_723 @ vf_724_739 @ vf_740_755 @
            vf_756_771 @ vf_772_787 @ vf_788_803 @ vf_804_819 @ vf_820_835 @
            vf_836_851 @ vf_852_867 @ vf_868_883 @ vf_884_899 @ vf_900_915 @
            vf_916_931 @ vf_932_947 @ vf_948_963 @ vf_964_979 @ vf_980_995 @
            vf_996_1011 @ vf_1012_1027 @ vf_1028_1043 @ vf_1044_1059 @
            vf_1060_1075 @ vf_1076_1091 @ vf_1092_1107 @ vf_1108_1123 @
            vf_1124_1139 @ vf_1140_1155 @ vf_1156_1171 @ vf_1172_1187 @
            vf_1188_1203 @ vf_1204_1219 @ vf_1220_1235 @ vf_1236_1251 @
            vf_1252_1267 @ vf_1268_1283 @ vf_1284_1299 @ vf_1300_1315 @
            vf_1316_1331 @ vf_1332_1347 @ vf_1348_1363 @ vf_1364_1365)"
    by (rule single_slot)
  have rows: "vf_669_674 = butlast vf_669_674 @ [''**SECURITY CLAIM TO VALIDATE:**'']"
    by (simp add: vf_669_674_def)
  have "text_of_rows vf_669_674 =
      text_of_rows (butlast vf_669_674 @ [''**SECURITY CLAIM TO VALIDATE:**''])"
    by (rule arg_cong[OF rows])
  then have "text_of_rows vf_669_674 =
      text_of_rows (butlast vf_669_674) @ ''**SECURITY CLAIM TO VALIDATE:**'' @ [CHR 0x0A]"
    by (simp only: text_of_rows_snoc)
  then have "suffix (''**SECURITY CLAIM TO VALIDATE:**'' @ [CHR 0x0A]) (text_of_rows vf_669_674)"
    by (rule suffixI)
  with slot show ?thesis
    unfolding Let_def by blast
qed

text \<open>The report \<^verbatim>\<open>No finding.\<close> in its slot.\<close>

theorem validation_format_single_slot_sample:
  "take (length (text_of_rows vf_669_674)) (validation_format ''No finding.'') =
     text_of_rows vf_669_674 \<and>
   take 11 (drop (length (text_of_rows vf_669_674)) (validation_format ''No finding.'')) =
     ''No finding.'' \<and>
   suffix (''**SECURITY CLAIM TO VALIDATE:**'' @ [CHR 0x0A]) (text_of_rows vf_669_674)"
proof -
  from validation_format_single_slot[of "''No finding.''"]
  have a: "validation_format ''No finding.'' =
      text_of_rows vf_669_674 @ ''No finding.'' @
      (CHR 0x0A # text_of_rows
           (vf_676_691 @ vf_692_707 @ vf_708_723 @ vf_724_739 @ vf_740_755 @
            vf_756_771 @ vf_772_787 @ vf_788_803 @ vf_804_819 @ vf_820_835 @
            vf_836_851 @ vf_852_867 @ vf_868_883 @ vf_884_899 @ vf_900_915 @
            vf_916_931 @ vf_932_947 @ vf_948_963 @ vf_964_979 @ vf_980_995 @
            vf_996_1011 @ vf_1012_1027 @ vf_1028_1043 @ vf_1044_1059 @
            vf_1060_1075 @ vf_1076_1091 @ vf_1092_1107 @ vf_1108_1123 @
            vf_1124_1139 @ vf_1140_1155 @ vf_1156_1171 @ vf_1172_1187 @
            vf_1188_1203 @ vf_1204_1219 @ vf_1220_1235 @ vf_1236_1251 @
            vf_1252_1267 @ vf_1268_1283 @ vf_1284_1299 @ vf_1300_1315 @
            vf_1316_1331 @ vf_1332_1347 @ vf_1348_1363 @ vf_1364_1365))"
    and b: "suffix (''**SECURITY CLAIM TO VALIDATE:**'' @ [CHR 0x0A]) (text_of_rows vf_669_674)"
    unfolding Let_def by blast+
  have "take (length (text_of_rows vf_669_674)) (validation_format ''No finding.'') =
      text_of_rows vf_669_674"
    by (subst a) simp
  moreover have "take 11 (drop (length (text_of_rows vf_669_674))
      (validation_format ''No finding.'')) = ''No finding.''"
    by (subst a) simp
  ultimately show ?thesis using b by blast
qed

section \<open>Calls of the renderers\<close>

lemma invoke_returns: "\<exists>out. invoke g c = (Inr out, g)"
  by (cases c) simp_all

lemma invoke_state: "snd (invoke g c) = g"
  by (cases c) simp_all

lemma invoke_result: "fst (invoke g c) = fst (invoke g' c)"
  by (cases c) simp_all

lemma invoke_all_state: "snd (invoke_all g cs) = g"
proof (induction cs arbitrary: g)
  case Nil
  show ?case by simp
next
  case (Cons c cs)
  obtain out where a: "invoke g c = (Inr out, g)"
    using invoke_returns by blast
  obtain rs g2 where b: "invoke_all g cs = (rs, g2)"
    by (cases "invoke_all g cs")
  from Cons[of g] b have "g2 = g" by simp
  with a b show ?case by simp
qed

lemma invoke_all_result: "fst (invoke_all g cs) = fst (invoke_all g' cs)"
proof (induction cs arbitrary: g g')
  case Nil
  show ?case by simp
next
  case (Cons c cs)
  obtain out where a: "invoke g c = (Inr out, g)"
    using invoke_returns by blast
  obtain out' where b: "invoke g' c = (Inr out', g')"
    using invoke_returns by blast
  from a b invoke_result[of g c g'] have c: "out = out'" by simp
  obtain rs g2 where d: "invoke_all g cs = (rs, g2)"
    by (cases "invoke_all g cs")
  obtain rs' g2' where e: "invoke_all g' cs = (rs', g2')"
    by (cases "invoke_all g' cs")
  from Cons[of g g'] d e have "rs = rs'" by simp
  with a b c d e show ?case by simp
qed

text \<open>
  Claim C7. A call of \<^verbatim>\<open>validation_format\<close> with a string returns a string, in every
  state of the module, and never raises; the string returned depends on the argument
  only, so two calls with the same argument return the same text.
\<close>

theorem validation_format_total_deterministic:
  "\<exists>out. \<forall>g. invoke g (Validation_format s) = (Inr out, g)"
  by simp

theorem validation_format_total_deterministic_sample:
  "\<exists>out. \<forall>g. invoke g (Validation_format ''No finding.'') = (Inr out, g)"
  by (rule validation_format_total_deterministic)

text \<open>
  Claim C9. What a renderer returns does not depend on the value bound to
  \<^verbatim>\<open>questions\<close>: for two values of it, empty or not, every call and every sequence
  of calls returns the same texts.
\<close>

theorem renderers_ignore_questions:
  "fst (invoke (g\<lparr>questions_var := qa\<rparr>) c) = fst (invoke (g\<lparr>questions_var := qb\<rparr>) c) \<and>
   fst (invoke_all (g\<lparr>questions_var := qa\<rparr>) cs) =
     fst (invoke_all (g\<lparr>questions_var := qb\<rparr>) cs)"
  using invoke_result invoke_all_result by blast

theorem renderers_ignore_questions_sample:
  "fst (invoke \<lparr>BASE_URL_var = BASE_URL, questions_var = PyList [],
                questions_generator_var = questions_generator\<rparr>
          (Question_generator ''byteball/ocore/validation.js'')) =
   fst (invoke \<lparr>BASE_URL_var = BASE_URL, questions_var = PyList [PyStr ''Q1''],
                questions_generator_var = questions_generator\<rparr>
          (Question_generator ''byteball/ocore/validation.js''))"
  using renderers_ignore_questions[where
      g = "\<lparr>BASE_URL_var = BASE_URL, questions_var = PyNone,
        questions_generator_var = questions_generator\<rparr>"
      and qa = "PyList []" and qb = "PyList [PyStr ''Q1'']"
      and c = "Question_generator ''byteball/ocore/validation.js''" and cs = "[]"]
  by simp

text \<open>
  Claim C10. A call of a renderer, and any sequence of such calls, leaves the state of
  the module as it was: \<^verbatim>\<open>BASE_URL\<close>, \<^verbatim>\<open>questions\<close> and \<^verbatim>\<open>questions_generator\<close>
  are bound to the same values after it.
\<close>

theorem renderers_leave_module_state:
  "snd (invoke g c) = g \<and> snd (invoke_all g cs) = g"
  using invoke_state invoke_all_state by blast

theorem renderers_leave_module_state_sample:
  "snd (invoke_all \<lparr>BASE_URL_var = BASE_URL, questions_var = PyList [PyStr ''Q1''],
                    questions_generator_var = questions_generator\<rparr>
          [Question_format ''Q'', Validation_format ''R'', Question_generator ''F'',
           Question_format ''Q'']) =
     \<lparr>BASE_URL_var = BASE_URL, questions_var = PyList [PyStr ''Q1''],
      questions_generator_var = questions_generator\<rparr>"
  using renderers_leave_module_state[where
      g = "\<lparr>BASE_URL_var = BASE_URL, questions_var = PyList [PyStr ''Q1''],
        questions_generator_var = questions_generator\<rparr>"
      and c = "Question_format ''Q''"
      and cs = "[Question_format ''Q'', Validation_format ''R'', Question_generator ''F'',
        Question_format ''Q'']"]
  by (rule conjunct2)

section \<open>The question-generation prompt and the catalog\<close>

text \<open>
  The prompt for a target file contains the target: the first slot is the row of line 1392.
\<close>

lemma target_in_question_generator: "sublist t (question_generator t)"
proof -
  have "''**CRITICAL TARGET FILE**: Focus question generation EXCLUSIVELY on `'' @ t @ ''`''
      \<in> set (question_generator_rows t)"
    unfolding question_generator_rows_def by simp
  moreover have "sublist t
      (''**CRITICAL TARGET FILE**: Focus question generation EXCLUSIVELY on `'' @ t @ ''`'')"
    by (rule sublist_appendI)
  ultimately show ?thesis
    unfolding question_generator_def by (rule sublist_text_of_rowsI)
qed

text \<open>
  No row of the prompt for \<^verbatim>\<open>byteball/ocore/validation.js\<close> contains the four characters
  \<^verbatim>\<open>g. j\<close>: first the rows without a slot, block by block, then all rows.
\<close>

lemma qg_1381_1391_scan: "list_all (\<lambda>r. \<not> sublist ''g. j'' r) qg_1381_1391"
  by (simp add: qg_1381_1391_def utf8_defs sublist_Cons_right)

lemma qg_1393_1393_scan: "list_all (\<lambda>r. \<not> sublist ''g. j'' r) qg_1393_1393"
  by (simp add: qg_1393_1393_def utf8_defs sublist_Cons_right)

lemma qg_1395_1410_scan: "list_all (\<lambda>r. \<not> sublist ''g. j'' r) qg_1395_1410"
  by (simp add: qg_1395_1410_def utf8_defs sublist_Cons_right)

lemma qg_1411_1426_scan: "list_all (\<lambda>r. \<not> sublist ''g. j'' r) qg_1411_1426"
  by (simp add: qg_1411_1426_def utf8_defs sublist_Cons_right)

lemma qg_1427_1442_scan: "list_all (\<lambda>r. \<not> sublist ''g. j'' r) qg_1427_1442"
  by (simp add: qg_1427_1442_def utf8_defs sublist_Cons_right)

lemma qg_1443_1458_scan: "list_all (\<lambda>r. \<not> sublist ''g. j'' r) qg_1443_1458"
  by (simp add: qg_1443_1458_def utf8_defs sublist_Cons_right)

lemma qg_1459_1474_scan: "list_all (\<lambda>r. \<not> sublist ''g. j'' r) qg_1459_1474"
  by (simp add: qg_1459_1474_def utf8_defs sublist_Cons_right)

lemma qg_1475_1490_scan: "list_all (\<lambda>r. \<not> sublist ''g. j'' r) qg_1475_1490"
  by (simp add: qg_1475_1490_def utf8_defs sublist_Cons_right)

lemma qg_1491_1497_scan: "list_all (\<lambda>r. \<not> sublist ''g. j'' r) qg_1491_1497"
  by (simp add: qg_1491_1497_def utf8_defs sublist_Cons_right)

lemma qg_1499_1514_scan: "list_all (\<lambda>r. \<not> sublist ''g. j'' r) qg_1499_1514"
  by (simp add: qg_1499_1514_def utf8_defs sublist_Cons_right)

lemma qg_1515_1530_scan: "list_all (\<lambda>r. \<not> sublist ''g. j'' r) qg_1515_1530"
  by (simp add: qg_1515_1530_def utf8_defs sublist_Cons_right)

lemma qg_1531_1546_scan: "list_all (\<lambda>r. \<not> sublist ''g. j'' r) qg_1531_1546"
  by (simp add: qg_1531_1546_def utf8_defs sublist_Cons_right)

lemma qg_1547_1562_scan: "list_all (\<lambda>r. \<not> sublist ''g. j'' r) qg_1547_1562"
  by (simp add: qg_1547_1562_def utf8_defs sublist_Cons_right)

lemma qg_1563_1578_scan: "list_all (\<lambda>r. \<not> sublist ''g. j'' r) qg_1563_1578"
  by (simp add: qg_1563_1578_def utf8_defs sublist_Cons_right)

lemma qg_1579_1594_scan: "list_all (\<lambda>r. \<not> sublist ''g. j'' r) qg_1579_1594"
  by (simp add: qg_1579_1594_def utf8_defs sublist_Cons_right)

lemma qg_1595_1610_scan: "list_all (\<lambda>r. \<not> sublist ''g. j'' r) qg_1595_1610"
  by (simp add: qg_1595_1610_def utf8_defs sublist_Cons_right)

lemma qg_1611_1626_scan: "list_all (\<lambda>r. \<not> sublist ''g. j'' r) qg_1611_1626"
  by (simp add: qg_1611_1626_def utf8_defs sublist_Cons_right)

lemma qg_1627_1642_scan: "list_all (\<lambda>r. \<not> sublist ''g. j'' r) qg_1627_1642"
  by (simp add: qg_1627_1642_def utf8_defs sublist_Cons_right)

lemma qg_1643_1658_scan: "list_all (\<lambda>r. \<not> sublist ''g. j'' r) qg_1643_1658"
  by (simp add: qg_1643_1658_def utf8_defs sublist_Cons_right)

lemma qg_1659_1674_scan: "list_all (\<lambda>r. \<not> sublist ''g. j'' r) qg_1659_1674"
  by (simp add: qg_1659_1674_def utf8_defs sublist_Cons_right)

lemma qg_1675_1690_scan: "list_all (\<lambda>r. \<not> sublist ''g. j'' r) qg_1675_1690"
  by (simp add: qg_1675_1690_def utf8_defs sublist_Cons_right)

lemma qg_1691_1706_scan: "list_all (\<lambda>r. \<not> sublist ''g. j'' r) qg_1691_1706"
  by (simp add: qg_1691_1706_def utf8_defs sublist_Cons_right)

lemma qg_1707_1719_scan: "list_all (\<lambda>r. \<not> sublist ''g. j'' r) qg_1707_1719"
  by (simp add: qg_1707_1719_def utf8_defs sublist_Cons_right)

lemma qg_1721_1721_scan: "list_all (\<lambda>r. \<not> sublist ''g. j'' r) qg_1721_1721"
  by (simp add: qg_1721_1721_def utf8_defs sublist_Cons_right)

lemma qg_1724_1724_scan: "list_all (\<lambda>r. \<not> sublist ''g. j'' r) qg_1724_1724"
  by (simp add: qg_1724_1724_def utf8_defs sublist_Cons_right)

lemma qg_1726_1734_scan: "list_all (\<lambda>r. \<not> sublist ''g. j'' r) qg_1726_1734"
  by (simp add: qg_1726_1734_def utf8_defs sublist_Cons_right)

lemma qg_1736_1736_scan: "list_all (\<lambda>r. \<not> sublist ''g. j'' r) qg_1736_1736"
  by (simp add: qg_1736_1736_def utf8_defs sublist_Cons_right)

lemma qg_1738_1753_scan: "list_all (\<lambda>r. \<not> sublist ''g. j'' r) qg_1738_1753"
  by (simp add: qg_1738_1753_def utf8_defs sublist_Cons_right)

lemma qg_1754_1757_scan: "list_all (\<lambda>r. \<not> sublist ''g. j'' r) qg_1754_1757"
  by (simp add: qg_1754_1757_def utf8_defs sublist_Cons_right)

lemma qg_1759_1759_scan: "list_all (\<lambda>r. \<not> sublist ''g. j'' r) qg_1759_1759"
  by (simp add: qg_1759_1759_def utf8_defs sublist_Cons_right)

lemma qg_1763_1764_scan: "list_all (\<lambda>r. \<not> sublist ''g. j'' r) qg_1763_1764"
  by (simp add: qg_1763_1764_def utf8_defs sublist_Cons_right)

lemma qg_1766_1776_scan: "list_all (\<lambda>r. \<not> sublist ''g. j'' r) qg_1766_1776"
  by (simp add: qg_1766_1776_def utf8_defs sublist_Cons_right)

lemmas qg_chunk_scans =
  qg_1381_1391_scan qg_1393_1393_scan qg_1395_1410_scan qg_1411_1426_scan
  qg_1427_1442_scan qg_1443_1458_scan qg_1459_1474_scan qg_1475_1490_scan
  qg_1491_1497_scan qg_1499_1514_scan qg_1515_1530_scan qg_1531_1546_scan
  qg_1547_1562_scan qg_1563_1578_scan qg_1579_1594_scan qg_1595_1610_scan
  qg_1611_1626_scan qg_1627_1642_scan qg_1643_1658_scan qg_1659_1674_scan
  qg_1675_1690_scan qg_1691_1706_scan qg_1707_1719_scan qg_1721_1721_scan
  qg_1724_1724_scan qg_1726_1734_scan qg_1736_1736_scan qg_1738_1753_scan
  qg_1754_1757_scan qg_1759_1759_scan qg_1763_1764_scan qg_1766_1776_scan

lemma target_rows_scan:
  "list_all (\<lambda>r. \<not> sublist ''g. j'' r)
     (question_generator_rows ''byteball/ocore/validation.js'')"
  unfolding question_generator_rows_def
  by (simp add: qg_chunk_scans utf8_defs sublist_Cons_right)

text \<open>
  Claim C1 at the target \<^verbatim>\<open>byteball/ocore/validation.js\<close>: the catalog entry
  \<^verbatim>\<open>byteball/ocore/archiving. js\<close> does not occur in the prompt, whose reference block
  spells the name without the blank.
\<close>

theorem question_generator_omits_catalog_entry:
  "''byteball/ocore/archiving. js'' \<in> set questions_generator \<and>
   \<not> sublist ''byteball/ocore/archiving. js''
     (question_generator ''byteball/ocore/validation.js'')"
proof
  show "''byteball/ocore/archiving. js'' \<in> set questions_generator"
    unfolding questions_generator_def by simp
  show "\<not> sublist ''byteball/ocore/archiving. js''
     (question_generator ''byteball/ocore/validation.js'')"
  proof
    assume "sublist ''byteball/ocore/archiving. js''
      (question_generator ''byteball/ocore/validation.js'')"
    moreover have "sublist ''g. j'' ''byteball/ocore/archiving. js''"
      by (simp add: sublist_Cons_right)
    ultimately have "sublist ''g. j'' (question_generator ''byteball/ocore/validation.js'')"
      by (rule sublist_order.order_trans[rotated])
    then have "\<exists>r\<in>set (question_generator_rows ''byteball/ocore/validation.js'').
        sublist ''g. j'' r"
      unfolding question_generator_def by (simp add: sublist_text_of_rows_iff)
    with target_rows_scan show False
      by (simp add: list_all_iff)
  qed
qed

end
